theory Spec2Isabelle
  imports Complex_Main "HOL-Library.Log_Nat" "HOL-Library.Multiset"
begin

section \<open>Python values that a risk score can be\<close>

text \<open>
  \<open>Dashboard.py\<close> applies \<open>get_risk_category\<close>, \<open>get_color\<close> and \<open>float\<close> to the cells
  of the \<open>risk_score\<close> column. A cell is \<open>None\<close>, a float (a finite value, an infinity
  or NaN), an int, a string, or some other object that \<open>float()\<close> rejects with
  \<open>TypeError\<close> (a list, a dict, \<open>pandas.NA\<close>).

  A finite float is kept as the rational number it denotes. Every binary64 value is
  such a rational, so a statement proved for all \<open>Fin q\<close> holds for all finite floats.
  The sign of zero is not kept: \<open>-0.0\<close> and \<open>0.0\<close> compare equal in Python.
\<close>

datatype pyfloat = Fin rat | PInf | NInf | NaN

datatype pyval = PyNone | PyFloat pyfloat | PyInt int | PyStr string | PyObj

text \<open>
  The exception classes that occur. A constructor stands for the class and its
  subclasses, as an \<open>except\<close> clause reads it.
\<close>

datatype exn = TypeError | ValueError | OverflowError | OSError | OtherError string

subsection \<open>Comparison of floats\<close>

text \<open>Python's \<open><\<close>, \<open><=\<close> and \<open>></\<close> on floats: every comparison with NaN is false.\<close>

fun float_lt :: "pyfloat \<Rightarrow> pyfloat \<Rightarrow> bool" where
  "float_lt NaN _ = False"
| "float_lt _ NaN = False"
| "float_lt _ NInf = False"
| "float_lt NInf _ = True"
| "float_lt PInf _ = False"
| "float_lt (Fin a) PInf = True"
| "float_lt (Fin a) (Fin b) = (a < b)"

fun float_le :: "pyfloat \<Rightarrow> pyfloat \<Rightarrow> bool" where
  "float_le NaN _ = False"
| "float_le _ NaN = False"
| "float_le NInf _ = True"
| "float_le _ NInf = False"
| "float_le _ PInf = True"
| "float_le PInf (Fin b) = False"
| "float_le (Fin a) (Fin b) = (a \<le> b)"

definition float_gt :: "pyfloat \<Rightarrow> pyfloat \<Rightarrow> bool" where
  "float_gt a b = float_lt b a"

text \<open>
  A Python int compared with a float is compared by exact value; the int \<open>k\<close> enters
  a comparison as \<open>of_py_int k\<close>.
\<close>

definition of_py_int :: "int \<Rightarrow> pyfloat" where
  "of_py_int k = Fin (of_int k)"

subsection \<open>Conversion with \<open>float()\<close>\<close>

text \<open>
  \<open>float(x)\<close> of an int or of a decimal string is the binary64 value nearest to the
  exact value, ties to the even significand. \<open>double_of_rat\<close> computes it: \<open>binade a\<close>
  is the exponent \<open>e\<close> with \<open>2^e \<le> a < 2^(e+1)\<close>, the spacing of floats there is
  \<open>2^(e-52)\<close> (and \<open>2^(-1074)\<close> below \<open>2^(-1022)\<close>), and a result of \<open>2^1024\<close> or more
  is an infinity.
\<close>

definition pow2 :: "int \<Rightarrow> rat" where
  "pow2 k = (if 0 \<le> k then 2 ^ nat k else 1 / 2 ^ nat (- k))"

definition pow10 :: "int \<Rightarrow> rat" where
  "pow10 k = (if 0 \<le> k then 10 ^ nat k else 1 / 10 ^ nat (- k))"

definition round_half_even :: "rat \<Rightarrow> int" where
  "round_half_even x =
     (let n = \<lfloor>x\<rfloor>; d = x - of_int n
      in if d < 1 / 2 then n else if 1 / 2 < d then n + 1
         else if even n then n else n + 1)"

definition binade :: "rat \<Rightarrow> int" where
  "binade a =
     (let k = bitlen (fst (quotient_of a)) - bitlen (snd (quotient_of a))
      in if pow2 k \<le> a then k else k - 1)"

definition double_of_rat :: "rat \<Rightarrow> pyfloat" where
  "double_of_rat x =
     (if x = 0 then Fin 0
      else
        let a = \<bar>x\<bar>;
            e = max (binade a) (- 1022);
            ulp = pow2 (e - 52);
            r = of_int (round_half_even (a / ulp)) * ulp
        in if pow2 1024 \<le> r then (if 0 < x then PInf else NInf)
           else Fin (if 0 < x then r else - r))"

text \<open>
  \<open>float(s)\<close> of a string: surrounding whitespace is dropped, a sign is read, then
  either \<open>inf\<close>, \<open>infinity\<close> or \<open>nan\<close> in any letter case, or a decimal number: digits
  with an optional point and an optional exponent, where an underscore may stand
  between two digits. Anything else raises \<open>ValueError\<close>.

  A string of the model is a Python \<open>str\<close> whose characters all lie below \<open>U+0100\<close>,
  one \<open>char\<close> for each. Among these characters the decimal digits are the ASCII
  digits, and the whitespace that \<open>float()\<close> drops is \<open>\t \n \v \f \r\<close>, the blank,
  \<open>U+0085\<close> and \<open>U+00A0\<close>; the separators \<open>U+001C\<close> to \<open>U+001F\<close> are not dropped. A
  \<open>str\<close> with a character from \<open>U+0100\<close> on (a decimal digit of another script, say)
  has no value in the model.
\<close>

definition is_space :: "char \<Rightarrow> bool" where
  "is_space c \<longleftrightarrow>
     (of_char c :: nat) \<in> {9, 10, 11, 12, 13, 32, 133, 160}"

definition strip :: "string \<Rightarrow> string" where
  "strip s = rev (dropWhile is_space (rev (dropWhile is_space s)))"

definition is_digit :: "char \<Rightarrow> bool" where
  "is_digit c \<longleftrightarrow> 48 \<le> (of_char c :: nat) \<and> (of_char c :: nat) \<le> 57"

definition digit_val :: "char \<Rightarrow> nat" where
  "digit_val c = of_char c - 48"

definition ascii_lower :: "char \<Rightarrow> char" where
  "ascii_lower c =
     (if 65 \<le> (of_char c :: nat) \<and> (of_char c :: nat) \<le> 90
      then char_of ((of_char c :: nat) + 32) else c)"

text \<open>
  \<open>digits_us prev s\<close> reads a group of digits; \<open>prev\<close> says that the character before
  was a digit, which is where an underscore or the end of the group may stand.
\<close>

fun digits_us :: "bool \<Rightarrow> string \<Rightarrow> nat list option" where
  "digits_us prev [] = (if prev then Some [] else None)"
| "digits_us prev (c # cs) =
     (if is_digit c then map_option (Cons (digit_val c)) (digits_us True cs)
      else if c = CHR ''_'' \<and> prev then digits_us False cs
      else None)"

definition int_of_digits :: "nat list \<Rightarrow> int" where
  "int_of_digits ds = foldl (\<lambda>n d. 10 * n + int d) 0 ds"

definition exponent_part :: "string \<Rightarrow> int option" where
  "exponent_part s =
     (case s of
        [] \<Rightarrow> None
      | c # cs \<Rightarrow>
          if c = CHR ''-'' then map_option (\<lambda>ds. - int_of_digits ds) (digits_us False cs)
          else if c = CHR ''+'' then map_option (\<lambda>ds. int_of_digits ds) (digits_us False cs)
          else map_option (\<lambda>ds. int_of_digits ds) (digits_us False s))"

definition optional_digits :: "string \<Rightarrow> nat list option" where
  "optional_digits s = (if s = [] then Some [] else digits_us False s)"

definition decimal_literal :: "string \<Rightarrow> rat option" where
  "decimal_literal s =
     (let is_e = (\<lambda>c. c = CHR ''e'' \<or> c = CHR ''E'');
          mant = takeWhile (\<lambda>c. \<not> is_e c) s;
          expo = dropWhile (\<lambda>c. \<not> is_e c) s;
          ip = takeWhile (\<lambda>c. c \<noteq> CHR ''.'') mant;
          fp = dropWhile (\<lambda>c. c \<noteq> CHR ''.'') mant
      in case optional_digits ip of
           None \<Rightarrow> None
         | Some ids \<Rightarrow>
             (case optional_digits (tl fp) of
                None \<Rightarrow> None
              | Some fds \<Rightarrow>
                  if ids = [] \<and> fds = [] then None
                  else
                    (case (if expo = [] then Some 0 else exponent_part (tl expo)) of
                       None \<Rightarrow> None
                     | Some k \<Rightarrow>
                         Some (of_int (int_of_digits (ids @ fds))
                               * pow10 (k - int (length fds))))))"

definition float_literal :: "string \<Rightarrow> pyfloat option" where
  "float_literal s =
     (let t = strip s;
          neg = (t \<noteq> [] \<and> hd t = CHR ''-'');
          u = (if t \<noteq> [] \<and> (hd t = CHR ''-'' \<or> hd t = CHR ''+'') then tl t else t);
          w = map ascii_lower u
      in if w = ''inf'' \<or> w = ''infinity'' then Some (if neg then NInf else PInf)
         else if w = ''nan'' then Some NaN
         else map_option (\<lambda>q. double_of_rat (if neg then - q else q)) (decimal_literal u))"

text \<open>
  \<open>float(score)\<close>. An int that rounds to \<open>2^1024\<close> or more raises \<open>OverflowError\<close>
  ("int too large to convert to float"); a string never does, it reads as an infinity.
\<close>

fun float_of :: "pyval \<Rightarrow> exn + pyfloat" where
  "float_of PyNone = Inl TypeError"
| "float_of (PyFloat f) = Inr f"
| "float_of (PyInt i) =
     (case double_of_rat (of_int i) of
        Fin q \<Rightarrow> Inr (Fin q)
      | _ \<Rightarrow> Inl OverflowError)"
| "float_of (PyStr s) =
     (case float_literal s of None \<Rightarrow> Inl ValueError | Some f \<Rightarrow> Inr f)"
| "float_of PyObj = Inl TypeError"

section \<open>Configuration\<close>

definition ALERT_THRESHOLD :: pyfloat where
  "ALERT_THRESHOLD = Fin 1"

definition RISK_CATEGORIES :: "(string \<times> int \<times> int) list" where
  "RISK_CATEGORIES =
     [(''No Risk'', 0, 2),
      (''Low Risk'', 2, 4),
      (''Moderate Risk'', 4, 6),
      (''High Risk'', 6, 8),
      (''Extreme Risk'', 8, 10)]"

definition COLOR_PALETTE :: "string \<rightharpoonup> string" where
  "COLOR_PALETTE =
     [''No Risk'' \<mapsto> ''#00FF7F'',
      ''Low Risk'' \<mapsto> ''#FFD700'',
      ''Moderate Risk'' \<mapsto> ''#FF8C00'',
      ''High Risk'' \<mapsto> ''#FF4500'',
      ''Extreme Risk'' \<mapsto> ''#FF0000'',
      ''No Data'' \<mapsto> ''#A9A9A9'',
      ''Invalid Data'' \<mapsto> ''#696969'']"

definition GRADIENT_COLORS :: "string list" where
  "GRADIENT_COLORS = [''#00FF7F'', ''#FFD700'', ''#FF8C00'', ''#FF4500'', ''#FF0000'']"

section \<open>Utility functions\<close>

text \<open>The clause \<open>except (TypeError, ValueError)\<close>.\<close>

definition caught :: "exn \<Rightarrow> bool" where
  "caught e \<longleftrightarrow> e = TypeError \<or> e = ValueError"

text \<open>
  The loop of \<open>get_risk_category\<close> over \<open>RISK_CATEGORIES.items()\<close>, in the order the
  dict was written; falling out of the loop returns \<open>'Invalid Data'\<close>.
\<close>

fun scan_categories :: "(string \<times> int \<times> int) list \<Rightarrow> pyfloat \<Rightarrow> string" where
  "scan_categories [] score = ''Invalid Data''"
| "scan_categories ((category, lower, upper) # rest) score =
     (if float_le (of_py_int lower) score \<and> float_lt score (of_py_int upper)
      then category
      else scan_categories rest score)"

definition get_risk_category :: "pyval \<Rightarrow> exn + string" where
  "get_risk_category score =
     (if score = PyNone then Inr ''No Data''
      else
        (case float_of score of
           Inl e \<Rightarrow> if caught e then Inr ''Invalid Data'' else Inl e
         | Inr s \<Rightarrow> Inr (scan_categories RISK_CATEGORIES s)))"

text \<open>
  \<open>get_color\<close>. \<open>LinearColormap\<close> belongs to the library \<open>branca\<close>, which is no part of
  the repository: the colormap built from \<open>GRADIENT_COLORS\<close> with \<open>vmin=0, vmax=10\<close> is
  the parameter \<open>cmap\<close>, a function from a float to a colour string that may raise.
  The call stands inside the \<open>try\<close>, so a \<open>TypeError\<close> or \<open>ValueError\<close> it raises is
  caught as well. A palette entry is looked up with \<open>the\<close>: both keys are in the dict.
\<close>

definition get_color :: "(pyfloat \<Rightarrow> exn + string) \<Rightarrow> pyval \<Rightarrow> exn + string" where
  "get_color cmap score =
     (if score = PyNone then Inr (the (COLOR_PALETTE ''No Data''))
      else
        (case float_of score of
           Inl e \<Rightarrow> if caught e then Inr (the (COLOR_PALETTE ''Invalid Data'')) else Inl e
         | Inr s \<Rightarrow>
             if float_lt s (of_py_int 0) \<or> float_gt s (of_py_int 10)
             then Inr (the (COLOR_PALETTE ''Invalid Data''))
             else
               (case cmap s of
                  Inl e \<Rightarrow> if caught e then Inr (the (COLOR_PALETTE ''Invalid Data'')) else Inl e
                | Inr c \<Rightarrow> Inr c)))"

text \<open>
  \<open>safe_float_format\<close>. The result is \<open>"N/A"\<close> or the float written with \<open>precision\<close>
  decimals (\<open>f"{float(value):.{precision}f}"\<close>); the decimal digits are not computed,
  the text is kept as the float and the precision.
\<close>

datatype cell_text = NA | Fixed pyfloat nat

definition safe_float_format :: "pyval \<Rightarrow> nat \<Rightarrow> exn + cell_text" where
  "safe_float_format v precision =
     (if v = PyNone then Inr NA
      else
        (case float_of v of
           Inl e \<Rightarrow> if caught e then Inr NA else Inl e
         | Inr f \<Rightarrow> Inr (Fixed f precision)))"

section \<open>The colormap\<close>

text \<open>
  Modelled from the spec: \<open>LinearColormap\<close> is a class of the library \<open>branca\<close>, whose
  code is not in the repository. The spec says of it: "linear interpolation across
  the five gradient stops evenly spaced over [0,10]", a "piecewise-linear RGB blend
  between adjacent stops". \<open>linear_colormap\<close> is that blend on the colours of
  \<open>GRADIENT_COLORS\<close>: with \<open>n\<close> stops the \<open>i\<close>-th stop lies at \<open>vmin + (vmax - vmin) * i / (n - 1)\<close>,
  a value below the first stop or above the last one gets the colour of that stop.
  The spec fixes neither the rounding nor the text of a blended colour: a channel is
  cut to a whole number between 0 and 255 and the colour is written \<open>#RRGGBB\<close> like the
  stops. What the colormap does at NaN is the parameter \<open>at_nan\<close>.
\<close>

definition hex_val :: "char \<Rightarrow> nat" where
  "hex_val c =
     (let n = (of_char c :: nat)
      in if 48 \<le> n \<and> n \<le> 57 then n - 48
         else if 65 \<le> n \<and> n \<le> 70 then n - 55
         else if 97 \<le> n \<and> n \<le> 102 then n - 87
         else 0)"

definition hex_digit :: "nat \<Rightarrow> char" where
  "hex_digit n = (if n < 10 then char_of (48 + n) else char_of (55 + n))"

text \<open>The three channels of a colour written \<open>#RRGGBB\<close>.\<close>

definition rgb_of_hex :: "string \<Rightarrow> rat \<times> rat \<times> rat" where
  "rgb_of_hex s =
     (let h = (\<lambda>i. of_nat (16 * hex_val (s ! i) + hex_val (s ! Suc i)))
      in (h 1, h 3, h 5))"

definition hex_byte :: "rat \<Rightarrow> string" where
  "hex_byte x = (let n = nat \<lfloor>x\<rfloor> in [hex_digit (n div 16), hex_digit (n mod 16)])"

definition hex_of_rgb :: "rat \<times> rat \<times> rat \<Rightarrow> string" where
  "hex_of_rgb c =
     (case c of (r, g, b) \<Rightarrow> CHR ''#'' # hex_byte r @ hex_byte g @ hex_byte b)"

definition blend :: "rat \<Rightarrow> rat \<times> rat \<times> rat \<Rightarrow> rat \<times> rat \<times> rat \<Rightarrow> rat \<times> rat \<times> rat" where
  "blend p c d =
     (case (c, d) of
        ((r1, g1, b1), (r2, g2, b2)) \<Rightarrow>
          ((1 - p) * r1 + p * r2, (1 - p) * g1 + p * g2, (1 - p) * b1 + p * b2))"

text \<open>The place of the \<open>i\<close>-th of \<open>n\<close> stops, and the last stop at or below \<open>x\<close>.\<close>

definition stop_at :: "nat \<Rightarrow> rat \<Rightarrow> rat \<Rightarrow> nat \<Rightarrow> rat" where
  "stop_at n vmin vmax i = vmin + (vmax - vmin) * of_nat i / of_nat (n - 1)"

definition stop_index :: "nat \<Rightarrow> rat \<Rightarrow> rat \<Rightarrow> rat \<Rightarrow> nat" where
  "stop_index n vmin vmax x = nat \<lfloor>(x - vmin) * of_nat (n - 1) / (vmax - vmin)\<rfloor>"

definition gradient_rgb :: "string list \<Rightarrow> rat \<Rightarrow> rat \<Rightarrow> rat \<Rightarrow> rat \<times> rat \<times> rat" where
  "gradient_rgb colors vmin vmax x =
     (let n = length colors
      in if x \<le> vmin then rgb_of_hex (colors ! 0)
         else if vmax \<le> x then rgb_of_hex (colors ! (n - 1))
         else
           let i = stop_index n vmin vmax x;
               p = (x - stop_at n vmin vmax i)
                   / (stop_at n vmin vmax (Suc i) - stop_at n vmin vmax i)
           in blend p (rgb_of_hex (colors ! i)) (rgb_of_hex (colors ! Suc i)))"

fun linear_colormap :: "(exn + string) \<Rightarrow> pyfloat \<Rightarrow> exn + string" where
  "linear_colormap at_nan (Fin x) = Inr (hex_of_rgb (gradient_rgb GRADIENT_COLORS 0 10 x))"
| "linear_colormap at_nan NInf = Inr (GRADIENT_COLORS ! 0)"
| "linear_colormap at_nan PInf = Inr (GRADIENT_COLORS ! 4)"
| "linear_colormap at_nan NaN = at_nan"

section \<open>Loading the latest data file\<close>

text \<open>
  The file system as \<open>load_latest_data\<close> reads it: the path \<open>DATA_DIR\<close> is missing, is
  something that cannot be listed, or is a directory with entries; of an entry the
  function reads the name, the size (\<open>os.path.getsize\<close>) and the creation time
  (\<open>os.path.getctime\<close>, seconds). Either of the two calls may raise, as on a
  dangling link, and gives the same answer each time it is made within one pass.
\<close>

record file_entry =
  filename :: string
  getsize :: "exn + nat"
  getctime :: "exn + rat"

datatype node = Missing | Not_a_directory | Directory "file_entry list"

text \<open>
  A row as \<open>gpd.read_file\<close> delivers it, and a row with the derived column
  \<open>risk_category\<close>. The type \<open>'g\<close> is the geometry. A frame carries the names of its
  columns; the cells of a column that the frame does not have are never read.
\<close>

record 'g feature =
  risk_score :: pyval
  geometry :: 'g

record 'g zone = "'g feature" +
  risk_category :: string

record 'g geoframe =
  columns :: "string list"
  features :: "'g feature list"

record 'g dataframe =
  data_columns :: "string list"
  zones :: "'g zone list"

text \<open>
  The fourth component of the result: one of the three fixed messages, or
  \<open>f"Error loading data: {str(e)}"\<close> for the exception \<open>e\<close>, whose own text is not
  modelled.
\<close>

datatype message = Message string | Error_loading_data exn

definition endswith :: "string \<Rightarrow> string \<Rightarrow> bool" where
  "endswith s suffix \<longleftrightarrow>
     length suffix \<le> length s \<and> drop (length s - length suffix) s = suffix"

text \<open>
  The list comprehension of \<open>load_latest_data\<close>: the entries are taken in the order
  of the listing, the size of an entry is asked for only when its name ends in
  \<open>.geojson\<close>, and the first call that raises ends the comprehension.
\<close>

fun valid_files :: "file_entry list \<Rightarrow> exn + file_entry list" where
  "valid_files [] = Inr []"
| "valid_files (f # fs) =
     (if endswith (filename f) ''.geojson''
      then
        (case getsize f of
           Inl e \<Rightarrow> Inl e
         | Inr n \<Rightarrow>
             (case valid_files fs of
                Inl e \<Rightarrow> Inl e
              | Inr rest \<Rightarrow> Inr (if n > 0 then f # rest else rest)))
      else valid_files fs)"

text \<open>
  Python's \<open>max(files, key=...)\<close>: the key of each item is computed once, in order; an
  item replaces the best one when its key is greater, so of several greatest items
  the first is returned. On an empty list \<open>max\<close> raises \<open>ValueError\<close>.
\<close>

fun max_by :: "('a \<Rightarrow> exn + rat) \<Rightarrow> 'a \<Rightarrow> rat \<Rightarrow> 'a list \<Rightarrow> exn + 'a" where
  "max_by key best best_key [] = Inr best"
| "max_by key best best_key (x # xs) =
     (case key x of
        Inl e \<Rightarrow> Inl e
      | Inr k \<Rightarrow> if best_key < k then max_by key x k xs else max_by key best best_key xs)"

definition max_key :: "('a \<Rightarrow> exn + rat) \<Rightarrow> 'a list \<Rightarrow> exn + 'a" where
  "max_key key xs =
     (case xs of
        [] \<Rightarrow> Inl ValueError
      | x # rest \<Rightarrow> (case key x of Inl e \<Rightarrow> Inl e | Inr k \<Rightarrow> max_by key x k rest))"

text \<open>\<open>data['risk_score'].apply(get_risk_category)\<close>: the first exception ends the pass.\<close>

fun try_map :: "('a \<Rightarrow> exn + 'b) \<Rightarrow> 'a list \<Rightarrow> exn + 'b list" where
  "try_map f [] = Inr []"
| "try_map f (x # xs) =
     (case f x of
        Inl e \<Rightarrow> Inl e
      | Inr y \<Rightarrow> (case try_map f xs of Inl e \<Rightarrow> Inl e | Inr ys \<Rightarrow> Inr (y # ys)))"

definition add_risk_category :: "'g feature \<Rightarrow> exn + 'g zone" where
  "add_risk_category r =
     (case get_risk_category (risk_score r) of
        Inl e \<Rightarrow> Inl e
      | Inr c \<Rightarrow>
          Inr \<lparr>risk_score = risk_score r, geometry = geometry r, risk_category = c\<rparr>)"

type_synonym 'g load_result =
  "'g dataframe option \<times> rat option \<times> string option \<times> message option"

text \<open>
  \<open>load_latest_data\<close>, given the state of \<open>DATA_DIR\<close> and what \<open>gpd.read_file\<close> returns
  (or raises) for a file name. Every exception inside the function is caught by its
  \<open>except Exception\<close>. The test \<open>'risk_score' in data.columns\<close> before the labels are
  added is true whenever it is reached. \<open>update_time\<close> is kept as the creation time
  itself.
\<close>

definition load_latest_data ::
  "node \<Rightarrow> (string \<Rightarrow> exn + 'g geoframe) \<Rightarrow> 'g load_result" where
  "load_latest_data data_dir read_file =
     (case data_dir of
        Missing \<Rightarrow> (None, None, None, Some (Message ''Data directory not found''))
      | Not_a_directory \<Rightarrow> (None, None, None, Some (Error_loading_data OSError))
      | Directory entries \<Rightarrow>
          (case valid_files entries of
             Inl e \<Rightarrow> (None, None, None, Some (Error_loading_data e))
           | Inr [] \<Rightarrow> (None, None, None, Some (Message ''No valid GeoJSON files found''))
           | Inr files \<Rightarrow>
               (case max_key getctime files of
                  Inl e \<Rightarrow> (None, None, None, Some (Error_loading_data e))
                | Inr latest_file \<Rightarrow>
                    (case read_file (filename latest_file) of
                       Inl e \<Rightarrow> (None, None, None, Some (Error_loading_data e))
                     | Inr data \<Rightarrow>
                         if \<not> list_all (\<lambda>col. col \<in> set (columns data))
                                [''risk_score'', ''geometry'']
                         then (None, None, None,
                               Some (Message ''Missing required columns in data''))
                         else
                           (case try_map add_risk_category (features data) of
                              Inl e \<Rightarrow> (None, None, None, Some (Error_loading_data e))
                            | Inr zs \<Rightarrow>
                                (case getctime latest_file of
                                   Inl e \<Rightarrow> (None, None, None, Some (Error_loading_data e))
                                 | Inr update_time \<Rightarrow>
                                     (Some \<lparr>data_columns =
                                              (if ''risk_category'' \<in> set (columns data)
                                               then columns data
                                               else columns data @ [''risk_category'']),
                                            zones = zs\<rparr>,
                                      Some update_time,
                                      Some (filename latest_file),
                                      None)))))))"

section \<open>The panels\<close>

text \<open>
  What the page shows, in the order it is written. A metric shows a count or a text;
  the labels are written without their pictographs. Headings written with
  \<open>st.markdown\<close> are left out, as is the dashed border of the map shapes, which
  \<open>folium\<close> decides when it calls the style function.
\<close>

datatype metric_value = Count nat | Text cell_text

record 'g shape =
  shape_geometry :: 'g
  fillColor :: string
  tooltip_score :: cell_text
  tooltip_category :: string

record table_row =
  risk_score_display :: cell_text
  area_km2 :: pyfloat
  row_category :: string

datatype 'g widget =
    Metric string metric_value
  | Bar_chart "(string \<times> nat) list"
  | Folium_map "'g shape list"
  | Data_table "table_row list"
  | Error_box string exn

text \<open>
  The computations the page leaves to \<open>geopandas\<close> and \<open>branca\<close>: the colormap, the
  total area \<open>data.geometry.area.sum()/1e6\<close> and the areas of the rows
  \<open>x.geometry.area/1e6\<close>; each may raise.
\<close>

record 'g library =
  cmap :: "pyfloat \<Rightarrow> exn + string"
  total_area :: "'g list \<Rightarrow> exn + pyfloat"
  row_areas :: "'g list \<Rightarrow> exn + pyfloat list"

text \<open>\<open>try: ... except:\<close> and \<open>try: ... except Exception as e:\<close> around a panel.\<close>

definition guarded :: "(exn \<Rightarrow> 'w) \<Rightarrow> exn + 'w \<Rightarrow> exn + 'w" where
  "guarded handler body = (case body of Inl e \<Rightarrow> Inr (handler e) | Inr w \<Rightarrow> Inr w)"

text \<open>
  The statements of the page run one after another; an exception that leaves a
  panel ends the script, and what was shown before stays shown.
\<close>

fun run_panels :: "(exn + 'w) list \<Rightarrow> 'w list \<times> exn option" where
  "run_panels [] = ([], None)"
| "run_panels (Inl e # ps) = ([], Some e)"
| "run_panels (Inr w # ps) = (case run_panels ps of (out, r) \<Rightarrow> (w # out, r))"

subsection \<open>Metrics\<close>

definition total_zones :: "'g dataframe \<Rightarrow> exn + 'g widget" where
  "total_zones data = Inr (Metric ''Total Zones'' (Count (length (zones data))))"

text \<open>Python's \<open>max\<close> of a non-empty list of floats: an item replaces the best one when it is greater.\<close>

fun max_float :: "pyfloat \<Rightarrow> pyfloat list \<Rightarrow> pyfloat" where
  "max_float best [] = best"
| "max_float best (x # xs) = max_float (if float_gt x best then x else best) xs"

definition highest_risk_body :: "'g dataframe \<Rightarrow> exn + 'g widget" where
  "highest_risk_body data =
     (let valid_scores = filter (\<lambda>x. x \<noteq> PyNone) (map risk_score (zones data))
      in case try_map float_of valid_scores of
           Inl e \<Rightarrow> Inl e
         | Inr fs \<Rightarrow>
             (case safe_float_format
                     (case fs of [] \<Rightarrow> PyInt 0 | f # rest \<Rightarrow> PyFloat (max_float f rest)) 1 of
                Inl e \<Rightarrow> Inl e
              | Inr t \<Rightarrow> Inr (Metric ''Highest Risk'' (Text t))))"

definition highest_risk :: "'g dataframe \<Rightarrow> exn + 'g widget" where
  "highest_risk data =
     guarded (\<lambda>e. Metric ''Highest Risk'' (Text NA)) (highest_risk_body data)"

definition area_metric :: "'g library \<Rightarrow> 'g dataframe \<Rightarrow> exn + 'g widget" where
  "area_metric lib data =
     guarded (\<lambda>e. Metric ''Area'' (Text NA))
       (case (if zones data \<noteq> [] then total_area lib (map geometry (zones data))
              else Inr (Fin 0)) of
          Inl e \<Rightarrow> Inl e
        | Inr a \<Rightarrow> Inr (Metric ''Area'' (Text (Fixed a 2))))"

text \<open>
  \<open>sum(1 for x in data['risk_score'] if x is not None and float(x) > ALERT_THRESHOLD)\<close>:
  the scores are read in order, and \<open>float(x)\<close> stands in no \<open>try\<close>.
\<close>

fun alert_count :: "pyval list \<Rightarrow> exn + nat" where
  "alert_count [] = Inr 0"
| "alert_count (x # xs) =
     (if x \<noteq> PyNone
      then
        (case float_of x of
           Inl e \<Rightarrow> Inl e
         | Inr f \<Rightarrow>
             (case alert_count xs of
                Inl e \<Rightarrow> Inl e
              | Inr n \<Rightarrow> Inr (if float_gt f ALERT_THRESHOLD then n + 1 else n)))
      else alert_count xs)"

definition alert_zones :: "'g dataframe \<Rightarrow> exn + 'g widget" where
  "alert_zones data =
     (case alert_count (map risk_score (zones data)) of
        Inl e \<Rightarrow> Inl e
      | Inr n \<Rightarrow> Inr (Metric ''Alert Zones'' (Count n)))"

subsection \<open>Distribution chart\<close>

definition all_categories :: "string list" where
  "all_categories = map fst RISK_CATEGORIES @ [''No Data'', ''Invalid Data'']"

text \<open>
  \<open>value_counts()\<close> gives each label that occurs its number of occurrences;
  \<open>reindex(index, fill_value=0)\<close> reads the counts off in the order of \<open>index\<close>, with
  0 for a label that does not occur.
\<close>

definition value_counts :: "string list \<Rightarrow> (string \<rightharpoonup> nat)" where
  "value_counts labels =
     (\<lambda>c. if c \<in> set labels then Some (count_list labels c) else None)"

definition reindex :: "(string \<rightharpoonup> nat) \<Rightarrow> string list \<Rightarrow> nat \<Rightarrow> (string \<times> nat) list" where
  "reindex counts index fill_value =
     map (\<lambda>c. (c, case counts c of None \<Rightarrow> fill_value | Some n \<Rightarrow> n)) index"

definition risk_counts :: "'g dataframe \<Rightarrow> (string \<times> nat) list" where
  "risk_counts data = reindex (value_counts (map risk_category (zones data))) all_categories 0"

definition distribution :: "'g dataframe \<Rightarrow> (exn + 'g widget) list" where
  "distribution data =
     (if ''risk_category'' \<in> set (data_columns data)
      then [guarded (Error_box ''Could not display risk distribution'')
              (Inr (Bar_chart (risk_counts data)))]
      else [])"

subsection \<open>Map\<close>

definition map_shape :: "'g library \<Rightarrow> 'g zone \<Rightarrow> exn + 'g shape" where
  "map_shape lib row =
     (case safe_float_format (risk_score row) 1 of
        Inl e \<Rightarrow> Inl e
      | Inr t \<Rightarrow>
          (case get_color (cmap lib) (risk_score row) of
             Inl e \<Rightarrow> Inl e
           | Inr c \<Rightarrow>
               Inr \<lparr>shape_geometry = geometry row, fillColor = c,
                    tooltip_score = t, tooltip_category = risk_category row\<rparr>))"

definition risk_map :: "'g library \<Rightarrow> 'g dataframe \<Rightarrow> exn + 'g widget" where
  "risk_map lib data =
     guarded (Error_box ''Map rendering error'')
       (case try_map (map_shape lib) (zones data) of
          Inl e \<Rightarrow> Inl e
        | Inr shapes \<Rightarrow> Inr (Folium_map shapes))"

subsection \<open>Table\<close>

text \<open>The sort key \<open>lambda x: float(x) if x is not None else -1\<close>.\<close>

definition sort_key :: "pyval \<Rightarrow> exn + pyfloat" where
  "sort_key x = (if x \<noteq> PyNone then float_of x else Inr (of_py_int (- 1)))"

text \<open>
  \<open>sort_values('_sort_key', ascending=False)\<close> of \<open>pandas\<close>: the rows whose key is not
  NaN by falling key, then the rows whose key is NaN. \<open>comes_before a b\<close> says that key
  \<open>a\<close> must stand before key \<open>b\<close>. The rows are inserted one by one, a row going
  behind the rows it need not precede; the order \<open>pandas\<close> gives to rows of equal key
  is not fixed by its default sorting method.
\<close>

definition comes_before :: "pyfloat \<Rightarrow> pyfloat \<Rightarrow> bool" where
  "comes_before a b \<longleftrightarrow> a \<noteq> NaN \<and> (b = NaN \<or> float_gt a b)"

fun insert_desc :: "('a \<Rightarrow> pyfloat) \<Rightarrow> 'a \<Rightarrow> 'a list \<Rightarrow> 'a list" where
  "insert_desc key x [] = [x]"
| "insert_desc key x (y # ys) =
     (if comes_before (key x) (key y) then x # y # ys else y # insert_desc key x ys)"

definition sort_values_desc :: "('a \<Rightarrow> pyfloat) \<Rightarrow> 'a list \<Rightarrow> 'a list" where
  "sort_values_desc key xs = foldl (\<lambda>acc x. insert_desc key x acc) [] xs"

definition with_sort_key :: "'g zone \<Rightarrow> exn + ('g zone \<times> pyfloat)" where
  "with_sort_key row =
     (case sort_key (risk_score row) of Inl e \<Rightarrow> Inl e | Inr k \<Rightarrow> Inr (row, k))"

text \<open>\<open>display_data\<close>: the rows in the order of the table.\<close>

definition display_data :: "'g dataframe \<Rightarrow> exn + 'g zone list" where
  "display_data data =
     (if ''risk_score'' \<in> set (data_columns data)
      then
        (case try_map with_sort_key (zones data) of
           Inl e \<Rightarrow> Inl e
         | Inr keyed \<Rightarrow> Inr (map fst (sort_values_desc snd keyed)))
      else Inr (zones data))"

definition score_display :: "pyval \<Rightarrow> exn + cell_text" where
  "score_display s = (if s \<noteq> PyNone then safe_float_format s 1 else Inr NA)"

definition table_rows :: "'g library \<Rightarrow> 'g zone list \<Rightarrow> exn + table_row list" where
  "table_rows lib rows =
     (case row_areas lib (map geometry rows) of
        Inl e \<Rightarrow> Inl e
      | Inr areas \<Rightarrow>
          (case try_map score_display (map risk_score rows) of
             Inl e \<Rightarrow> Inl e
           | Inr shown \<Rightarrow>
               Inr (map (\<lambda>(r, a, t). \<lparr>risk_score_display = t, area_km2 = a,
                                        row_category = risk_category r\<rparr>)
                        (zip rows (zip areas shown)))))"

definition data_table :: "'g library \<Rightarrow> 'g dataframe \<Rightarrow> exn + 'g widget" where
  "data_table lib data =
     guarded (Error_box ''Data display error'')
       (case display_data data of
          Inl e \<Rightarrow> Inl e
        | Inr rows \<Rightarrow>
            (case table_rows lib rows of
               Inl e \<Rightarrow> Inl e
             | Inr trs \<Rightarrow> Inr (Data_table trs)))"

subsection \<open>The page\<close>

text \<open>
  The main content, shown when the frame is not empty: the widgets shown, and the
  exception that ended the script, if one did.
\<close>

definition main_content :: "'g library \<Rightarrow> 'g dataframe \<Rightarrow> 'g widget list \<times> exn option" where
  "main_content lib data =
     run_panels
       ([total_zones data, highest_risk data, area_metric lib data, alert_zones data]
        @ distribution data
        @ [risk_map lib data, data_table lib data])"

section \<open>Conversion of ints\<close>

text \<open>
  An int below \<open>2^53\<close> in absolute value is a binary64 value, and \<open>float()\<close> returns it
  unchanged.
\<close>

lemma pow2_pos: "0 < pow2 k"
  by (simp add: pow2_def)

lemma round_half_even_of_int: "round_half_even (of_int m) = m"
  by (simp add: round_half_even_def)

lemma quotient_of_of_int: "quotient_of (of_int n) = (n, 1)"
  by (metis Rat.of_int_def quotient_of_int)

lemma binade_of_int:
  assumes "1 \<le> n"
  shows "binade (of_int n) = bitlen n - 1"
proof -
  from assms have n: "0 < n" by simp
  have b1: "bitlen 1 = 1" by (simp add: bitlen_alt_def)
  from bitlen_bounds [OF n] have lo: "2 ^ nat (bitlen n - 1) \<le> n" by simp
  from n have ge: "1 \<le> bitlen n" by (auto simp: bitlen_alt_def)
  have "(2::rat) ^ nat (bitlen n - 1) = of_int (2 ^ nat (bitlen n - 1))" by simp
  also have "\<dots> \<le> of_int n" using lo by (simp only: of_int_le_iff)
  finally have "pow2 (bitlen n - 1) \<le> of_int n" using ge by (simp add: pow2_def)
  then show ?thesis by (simp add: binade_def quotient_of_of_int b1)
qed

lemma double_of_rat_of_nat_exact:
  assumes "1 \<le> n" "n < 2 ^ 53"
  shows "max (binade (of_int n)) (- 1022) = bitlen n - 1"
    and "of_int (round_half_even (of_int n / pow2 (bitlen n - 1 - 52))) * pow2 (bitlen n - 1 - 52) = (of_int n :: rat)"
    and "\<not> pow2 1024 \<le> of_int n"
proof -
  from assms have n: "0 < n" by simp
  from n have ge: "1 \<le> bitlen n" by (auto simp: bitlen_alt_def)
  from bitlen_bounds [OF n] have lo: "2 ^ nat (bitlen n - 1) \<le> n" by simp
  have le: "bitlen n \<le> 53"
  proof (rule ccontr)
    assume "\<not> bitlen n \<le> 53"
    then have "53 \<le> nat (bitlen n - 1)" by simp
    then have "(2::int) ^ 53 \<le> 2 ^ nat (bitlen n - 1)" by (rule power_increasing) simp
    with lo assms show False by linarith
  qed
  show "max (binade (of_int n)) (- 1022) = bitlen n - 1"
    using ge by (simp add: binade_of_int [OF assms(1)])
  define j where "j = nat (53 - bitlen n)"
  have ulp': "pow2 (bitlen n - 53) = 1 / 2 ^ j"
    using le by (cases "bitlen n = 53") (simp_all add: pow2_def j_def nat_diff_distrib)
  have "bitlen n - 1 - 52 = bitlen n - 53" by simp
  with ulp' have ulp: "pow2 (bitlen n - 1 - 52) = 1 / 2 ^ j" by (simp only:)
  have "of_int n / pow2 (bitlen n - 1 - 52) = (of_int (n * 2 ^ j) :: rat)"
    by (simp add: ulp')
  then have "round_half_even (of_int n / pow2 (bitlen n - 1 - 52)) = n * 2 ^ j"
    by (simp only: round_half_even_of_int)
  then show "of_int (round_half_even (of_int n / pow2 (bitlen n - 1 - 52))) * pow2 (bitlen n - 1 - 52) = (of_int n :: rat)"
    by (simp add: ulp')
  have "(of_int n :: rat) < of_int (2 ^ 53)" using assms(2) by (simp only: of_int_less_iff)
  also have "\<dots> \<le> 2 ^ 1024" by simp
  finally show "\<not> pow2 1024 \<le> of_int n" by (simp add: pow2_def)
qed

lemma double_of_rat_of_int:
  assumes "\<bar>i\<bar> < 2 ^ 53"
  shows "double_of_rat (of_int i) = Fin (of_int i)"
proof (cases "i = 0")
  case True
  then show ?thesis by (simp add: double_of_rat_def)
next
  case False
  define n where "n = \<bar>i\<bar>"
  have n: "1 \<le> n" "n < 2 ^ 53" using False assms by (simp_all add: n_def)
  have a: "\<bar>of_int i :: rat\<bar> = of_int n" by (simp add: n_def)
  note e = double_of_rat_of_nat_exact [OF n]
  show ?thesis
  proof (cases "0 < i")
    case True
    with False e show ?thesis
      by (simp add: double_of_rat_def Let_def a) (simp add: n_def)
  next
    case neg: False
    with False e show ?thesis
      by (simp add: double_of_rat_def Let_def a) (simp add: n_def)
  qed
qed

lemma float_of_PyInt:
  "\<bar>i\<bar> < 2 ^ 53 \<Longrightarrow> float_of (PyInt i) = Inr (Fin (of_int i))"
  by (simp add: double_of_rat_of_int)

lemma float_of_abc: "float_of (PyStr ''abc'') = Inl ValueError"
  by code_simp

text \<open>
  The int \<open>2^1024\<close> lies above every finite binary64 value: the conversion rounds it
  to infinity, and \<open>float()\<close> raises \<open>OverflowError\<close>.
\<close>

lemma bitlen_power2: "bitlen (2 ^ k) = int k + 1"
  using bitlen_pow2 [of 1 k] by (simp add: bitlen_alt_def)

lemma double_of_rat_power2:
  assumes "52 \<le> k"
  shows "double_of_rat (2 ^ k) = (if pow2 1024 \<le> 2 ^ k then PInf else Fin (2 ^ k))"
proof -
  have x: "(2::rat) ^ k = of_int (2 ^ k)" by simp
  have b: "binade (2 ^ k) = int k"
    unfolding x using binade_of_int [of "2 ^ k"] by (simp add: bitlen_power2)
  have e: "max (int k) (- 1022) = int k" by simp
  have u: "pow2 (int k - 52) = 2 ^ (k - 52)"
    using assms by (simp add: pow2_def nat_diff_distrib)
  have "(2::rat) ^ k = 2 ^ 52 * 2 ^ (k - 52)"
    using assms by (simp only: power_add [symmetric]) simp
  then have q: "(2::rat) ^ k / 2 ^ (k - 52) = of_int (2 ^ 52)" and m: "of_int (2 ^ 52) * 2 ^ (k - 52) = (2::rat) ^ k"
    by simp_all
  have r: "round_half_even (2 ^ k / 2 ^ (k - 52)) = 2 ^ 52"
    unfolding q by (rule round_half_even_of_int)
  have a: "\<bar>(2::rat) ^ k\<bar> = 2 ^ k" by simp
  have z: "(2::rat) ^ k \<noteq> 0" "(0::rat) < 2 ^ k" by simp_all
  show ?thesis
    unfolding double_of_rat_def Let_def a b e u r m
    by (simp only: z if_False if_True)
qed

lemma double_of_rat_2_1024: "double_of_rat (of_int (2 ^ 1024)) = PInf"
proof -
  have "pow2 1024 \<le> 2 ^ 1024" by (simp add: pow2_def)
  with double_of_rat_power2 [of 1024] have "double_of_rat (2 ^ 1024) = PInf"
    by (simp only: if_True)
  then show ?thesis by simp
qed

lemma float_of_2_1024: "float_of (PyInt (2 ^ 1024)) = Inl OverflowError"
  by (simp only: float_of.simps double_of_rat_2_1024 pyfloat.case)

section \<open>The risk classifier\<close>

lemma scan_in_range:
  assumes "0 \<le> s" "s < 10"
  shows "\<exists>c l u. find (\<lambda>(c, l, u). of_int l \<le> s \<and> s < of_int u) RISK_CATEGORIES = Some (c, l, u)
           \<and> filter (\<lambda>(c, l, u). of_int l \<le> s \<and> s < of_int u) RISK_CATEGORIES = [(c, l, u)]
           \<and> scan_categories RISK_CATEGORIES (Fin s) = c"
proof -
  consider "s < 2" | "2 \<le> s" "s < 4" | "4 \<le> s" "s < 6" | "6 \<le> s" "s < 8" | "8 \<le> s"
    by linarith
  then show ?thesis
    using assms by cases (simp_all add: RISK_CATEGORIES_def of_py_int_def)
qed

lemma scan_out_of_range:
  assumes "float_le (Fin 10) f \<or> float_lt f (Fin 0)"
  shows "scan_categories RISK_CATEGORIES f = ''Invalid Data''"
  using assms by (cases f) (auto simp add: RISK_CATEGORIES_def of_py_int_def)

text \<open>
  The scores that \<open>float()\<close> converts. Let \<open>float(score)\<close> return the number \<open>s\<close> (for a
  float, an int the conversion does not overflow on, a numeric string). If
  \<open>0 \<le> s < 10\<close>, exactly one range of \<open>RISK_CATEGORIES\<close> has \<open>lower \<le> s < upper\<close>; it is
  the first such range in the order of the dict, and \<open>get_risk_category\<close> returns its
  label, one of the five risk labels. If the number is 10 or more (\<open>+inf\<close> included)
  or below 0 (\<open>-inf\<close> included), the result is \<open>'Invalid Data'\<close>. Nothing is said here
  of a score on which \<open>float()\<close> raises.
\<close>

theorem get_risk_category_number:
  "(float_of score = Inr (Fin s) \<and> 0 \<le> s \<and> s < 10 \<longrightarrow>
      (\<exists>c l u. find (\<lambda>(c, l, u). of_int l \<le> s \<and> s < of_int u) RISK_CATEGORIES = Some (c, l, u)
         \<and> filter (\<lambda>(c, l, u). of_int l \<le> s \<and> s < of_int u) RISK_CATEGORIES = [(c, l, u)]
         \<and> get_risk_category score = Inr c))
   \<and> (float_of score = Inr f \<and> (float_le (Fin 10) f \<or> float_lt f (Fin 0)) \<longrightarrow>
        get_risk_category score = Inr ''Invalid Data'')"
proof (intro conjI impI)
  assume a: "float_of score = Inr (Fin s) \<and> 0 \<le> s \<and> s < 10"
  then have "score \<noteq> PyNone" by auto
  with a scan_in_range [of s]
  show "\<exists>c l u. find (\<lambda>(c, l, u). of_int l \<le> s \<and> s < of_int u) RISK_CATEGORIES = Some (c, l, u)
         \<and> filter (\<lambda>(c, l, u). of_int l \<le> s \<and> s < of_int u) RISK_CATEGORIES = [(c, l, u)]
         \<and> get_risk_category score = Inr c"
    by (simp add: get_risk_category_def)
next
  assume a: "float_of score = Inr f \<and> (float_le (Fin 10) f \<or> float_lt f (Fin 0))"
  then have "score \<noteq> PyNone" by auto
  with a scan_out_of_range [of f] show "get_risk_category score = Inr ''Invalid Data''"
    by (simp add: get_risk_category_def)
qed

theorem get_risk_category_number_witness:
  "get_risk_category (PyInt 5) = Inr ''Moderate Risk''
   \<and> get_risk_category (PyFloat (Fin (19 / 2))) = Inr ''Extreme Risk''
   \<and> get_risk_category (PyFloat (Fin (- 1 / 2))) = Inr ''Invalid Data''
   \<and> get_risk_category (PyFloat PInf) = Inr ''Invalid Data''"
  using get_risk_category_number [of "PyInt 5" 5 "Fin 5"]
    get_risk_category_number [of "PyFloat (Fin (19 / 2))" "19 / 2" "Fin (19 / 2)"]
    get_risk_category_number [of "PyFloat (Fin (- 1 / 2))" 0 "Fin (- 1 / 2)"]
    get_risk_category_number [of "PyFloat PInf" 0 PInf]
  by (auto simp add: float_of_PyInt RISK_CATEGORIES_def simp del: float_of.simps(3,4))

lemma get_risk_category_raises:
  "float_of v = Inl e \<Longrightarrow> \<not> caught e \<Longrightarrow> get_risk_category v = Inl e"
  by (cases "v = PyNone") (auto simp add: get_risk_category_def caught_def)

lemma highest_risk_raises:
  "v \<noteq> PyNone \<Longrightarrow> float_of v = Inl e \<Longrightarrow>
     highest_risk \<lparr>data_columns = cols,
                    zones = [\<lparr>risk_score = v, geometry = g, risk_category = c\<rparr>]\<rparr>
       = Inr (Metric ''Highest Risk'' (Text NA))"
  by (simp add: highest_risk_def highest_risk_body_def guarded_def)

text \<open>
  Claim C1 says that every number \<open>s\<close> with \<open>s \<ge> 10\<close> yields \<open>'Invalid Data'\<close>. The int
  \<open>2^1024\<close> is such a number, and \<open>get_risk_category\<close> has no result for it:
  \<open>float(2**1024)\<close> raises \<open>OverflowError\<close>, the clause \<open>except (TypeError, ValueError)\<close>
  does not take it, and the exception leaves the function, which its docstring
  describes as categorising \<open>with robust error handling\<close>.
\<close>

theorem get_risk_category_overflow:
  "float_of (PyInt (2 ^ 1024)) = Inl OverflowError
   \<and> \<not> caught OverflowError
   \<and> get_risk_category (PyInt (2 ^ 1024)) = Inl OverflowError
   \<and> get_risk_category (PyInt (2 ^ 1024)) \<noteq> Inr ''Invalid Data''"
proof -
  have c: "\<not> caught OverflowError" by (simp add: caught_def)
  have g: "get_risk_category (PyInt (2 ^ 1024)) = Inl OverflowError"
    by (rule get_risk_category_raises [OF float_of_2_1024 c])
  have d: "get_risk_category (PyInt (2 ^ 1024)) \<noteq> Inr ''Invalid Data''"
    unfolding g by (rule sum.distinct)
  show ?thesis by (intro conjI float_of_2_1024 c g d)
qed

text \<open>
  The metric \<open>Highest Risk\<close> converts the same scores with \<open>float(x)\<close> inside a bare
  \<open>except:\<close>, which does take the \<open>OverflowError\<close>: the metric shows \<open>N/A\<close>.
\<close>

lemma highest_risk_overflow:
  "highest_risk \<lparr>data_columns = [''risk_score'', ''geometry'', ''risk_category''],
                  zones = [\<lparr>risk_score = PyInt (2 ^ 1024), geometry = (),
                            risk_category = ''Invalid Data''\<rparr>]\<rparr>
     = Inr (Metric ''Highest Risk'' (Text NA))"
proof -
  have "PyInt (2 ^ 1024) \<noteq> PyNone" by (rule pyval.distinct)
  then show ?thesis by (rule highest_risk_raises [OF _ float_of_2_1024])
qed

text \<open>
  Claim C2. The sentinel outputs: \<open>get_risk_category(None)\<close> is \<open>'No Data'\<close>;
  \<open>get_risk_category("abc")\<close>, \<open>get_risk_category(10)\<close> and \<open>get_risk_category(-1)\<close> are
  \<open>'Invalid Data'\<close>, for the ints and for the floats \<open>10.0\<close> and \<open>-1.0\<close>, and so is the
  result for an object that \<open>float()\<close> rejects.
\<close>

theorem get_risk_category_sentinels:
  "get_risk_category PyNone = Inr ''No Data''
   \<and> get_risk_category (PyStr ''abc'') = Inr ''Invalid Data''
   \<and> get_risk_category (PyInt 10) = Inr ''Invalid Data''
   \<and> get_risk_category (PyInt (- 1)) = Inr ''Invalid Data''
   \<and> get_risk_category (PyFloat (Fin 10)) = Inr ''Invalid Data''
   \<and> get_risk_category (PyFloat (Fin (- 1))) = Inr ''Invalid Data''
   \<and> get_risk_category PyObj = Inr ''Invalid Data''"
  by (simp add: get_risk_category_def float_of_PyInt float_of_abc caught_def
      RISK_CATEGORIES_def of_py_int_def del: float_of.simps(3,4))

text \<open>
  Claim C9. A NaN score is not \<open>None\<close>, so it passes the \<open>None\<close> check; no comparison
  with NaN holds, so no range takes it; \<open>get_risk_category\<close> returns \<open>'Invalid Data'\<close>
  for it and not \<open>'No Data'\<close>.
\<close>

theorem get_risk_category_NaN:
  "get_risk_category (PyFloat NaN) = Inr ''Invalid Data''
   \<and> get_risk_category (PyFloat NaN) \<noteq> Inr ''No Data''
   \<and> PyFloat NaN \<noteq> PyNone
   \<and> (\<forall>lower. \<not> float_le lower NaN)
   \<and> (\<forall>upper. \<not> float_lt NaN upper)"
proof -
  have "\<not> float_le lower NaN" for lower by (cases lower) simp_all
  then show ?thesis
    by (simp add: get_risk_category_def RISK_CATEGORIES_def of_py_int_def)
qed

section \<open>The colour of a score\<close>

lemma palette_grays:
  "the (COLOR_PALETTE ''No Data'') = ''#A9A9A9''"
  "the (COLOR_PALETTE ''Invalid Data'') = ''#696969''"
  by (simp_all add: COLOR_PALETTE_def)

lemma hex_val_hex_digit: "d < 16 \<Longrightarrow> hex_val (hex_digit d) = d"
  by (auto simp add: hex_val_def hex_digit_def Let_def)

lemma hex_digits_eq:
  assumes "0 \<le> x" "x < 256"
    and "hex_digit (nat \<lfloor>x\<rfloor> div 16) = a" "hex_digit (nat \<lfloor>x\<rfloor> mod 16) = b"
  shows "\<lfloor>x\<rfloor> = int (16 * hex_val a + hex_val b)"
proof -
  define n where "n = nat \<lfloor>x\<rfloor>"
  from assms(1,2) have n: "n < 256" by (simp add: n_def floor_less_iff nat_less_iff)
  then have "n div 16 < 16" "n mod 16 < 16" by simp_all
  with assms(3,4) have "hex_val a = n div 16" "hex_val b = n mod 16"
    using hex_val_hex_digit unfolding n_def by blast+
  then have "16 * hex_val a + hex_val b = n" by simp
  with assms(1) show ?thesis by (simp add: n_def)
qed

lemma len_GRADIENT_COLORS: "length GRADIENT_COLORS = 5"
  by (simp add: GRADIENT_COLORS_def)

lemma gradient_stops:
  "rgb_of_hex (GRADIENT_COLORS ! 0) = (0, 255, 127)"
  "rgb_of_hex (GRADIENT_COLORS ! Suc 0) = (255, 215, 0)"
  "rgb_of_hex (GRADIENT_COLORS ! 4) = (255, 0, 0)"
  by (simp_all add: GRADIENT_COLORS_def rgb_of_hex_def hex_val_def Let_def)

lemma stop_index_range:
  assumes "0 < x" "x < 10"
  shows "stop_index 5 0 10 x \<le> 3"
    and "x < 5 / 2 \<Longrightarrow> stop_index 5 0 10 x = 0"
    and "5 / 2 \<le> x \<Longrightarrow> 1 \<le> stop_index 5 0 10 x"
  using assms by (simp_all add: stop_index_def floor_le_iff le_floor_iff floor_eq_iff nat_le_iff le_nat_iff)

lemma blend_red:
  assumes "1 \<le> i" "i \<le> 3"
  shows "fst (blend p (rgb_of_hex (GRADIENT_COLORS ! i)) (rgb_of_hex (GRADIENT_COLORS ! Suc i))) = 255"
proof -
  from assms consider "i = 1" | "i = 2" | "i = 3" by linarith
  then show ?thesis
    by cases (simp_all add: GRADIENT_COLORS_def rgb_of_hex_def hex_val_def Let_def blend_def algebra_simps)
qed

lemma gradient_rgb_rest:
  assumes "5 / 2 \<le> x"
  shows "fst (gradient_rgb GRADIENT_COLORS 0 10 x) = 255"
proof (cases "x < 10")
  case True
  with assms stop_index_range [of x] blend_red show ?thesis
    by (simp add: gradient_rgb_def len_GRADIENT_COLORS Let_def)
next
  case False
  then show ?thesis
    by (simp add: gradient_rgb_def len_GRADIENT_COLORS Let_def gradient_stops)
qed

lemma gradient_rgb_first:
  assumes "0 \<le> x" "x < 5 / 2"
  shows "gradient_rgb GRADIENT_COLORS 0 10 x
         = (255 * (2 * x / 5), 255 - 40 * (2 * x / 5), 127 * (1 - 2 * x / 5))"
proof (cases "x = 0")
  case True
  then show ?thesis by (simp add: gradient_rgb_def Let_def gradient_stops)
next
  case False
  with assms stop_index_range(2) [of x]
  have "gradient_rgb GRADIENT_COLORS 0 10 x = blend (x / (5 / 2)) (0, 255, 127) (255, 215, 0)"
    by (simp add: gradient_rgb_def len_GRADIENT_COLORS Let_def stop_at_def gradient_stops)
  also have "\<dots> = (255 * (2 * x / 5), 255 - 40 * (2 * x / 5), 127 * (1 - 2 * x / 5))"
    by (simp add: blend_def field_simps)
  finally show ?thesis .
qed

lemma gradient_not_gray:
  assumes "0 \<le> x" "x \<le> 10"
    and "k = CHR ''6'' \<or> k = CHR ''A''"
  shows "hex_of_rgb (gradient_rgb GRADIENT_COLORS 0 10 x) \<noteq> [CHR ''#'', k, CHR ''9'', k, CHR ''9'', k, CHR ''9'']"
proof (cases "x < 5 / 2")
  case True
  define p where "p = 2 * x / 5"
  have p: "0 \<le> p" "p < 1" using assms(1) True by (simp_all add: p_def)
  have rgb: "gradient_rgb GRADIENT_COLORS 0 10 x = (255 * p, 255 - 40 * p, 127 * (1 - p))"
    using gradient_rgb_first [OF assms(1) True] by (simp add: p_def)
  show ?thesis
  proof
    assume "hex_of_rgb (gradient_rgb GRADIENT_COLORS 0 10 x) = [CHR ''#'', k, CHR ''9'', k, CHR ''9'', k, CHR ''9'']"
    then have d: "hex_digit (nat \<lfloor>255 * p\<rfloor> div 16) = k" "hex_digit (nat \<lfloor>255 * p\<rfloor> mod 16) = CHR ''9''"
      "hex_digit (nat \<lfloor>127 * (1 - p)\<rfloor> div 16) = k" "hex_digit (nat \<lfloor>127 * (1 - p)\<rfloor> mod 16) = CHR ''9''"
      by (simp_all add: rgb hex_of_rgb_def hex_byte_def Let_def)
    have "\<lfloor>255 * p\<rfloor> = int (16 * hex_val k + hex_val (CHR ''9''))"
      using p by (intro hex_digits_eq d) simp_all
    moreover have "\<lfloor>127 * (1 - p)\<rfloor> = int (16 * hex_val k + hex_val (CHR ''9''))"
      using p by (intro hex_digits_eq d) simp_all
    moreover have "105 \<le> int (16 * hex_val k + hex_val (CHR ''9''))"
      using assms(3) by (auto simp add: hex_val_def)
    ultimately have "105 \<le> \<lfloor>255 * p\<rfloor>" "105 \<le> \<lfloor>127 * (1 - p)\<rfloor>" by simp_all
    then have "105 \<le> 255 * p" "105 \<le> 127 * (1 - p)" by (simp_all add: le_floor_iff)
    then have "105 / 255 \<le> p" "p \<le> 22 / 127" by (simp_all add: field_simps)
    then show False by simp
  qed
next
  case False
  then have "fst (gradient_rgb GRADIENT_COLORS 0 10 x) = 255"
    by (intro gradient_rgb_rest) simp
  then obtain g b where "gradient_rgb GRADIENT_COLORS 0 10 x = (255, g, b)"
    by (cases "gradient_rgb GRADIENT_COLORS 0 10 x") auto
  then show ?thesis
    using assms(3) by (auto simp add: hex_of_rgb_def hex_byte_def hex_digit_def Let_def)
qed

lemma linear_colormap_at_5: "linear_colormap at_nan (Fin 5) = Inr ''#FF8C00''"
  by code_simp

lemma linear_colormap_at_10: "linear_colormap at_nan (Fin 10) = Inr ''#FF0000''"
  by code_simp

text \<open>
  The colours of the scores on which \<open>float()\<close> does not overflow. Whatever the
  colormap is, \<open>get_color(None)\<close> is the gray \<open>#A9A9A9\<close> of \<open>'No Data'\<close>, and \<open>get_color\<close>
  of a value on which \<open>float()\<close> raises \<open>TypeError\<close> or \<open>ValueError\<close> (\<open>"abc"\<close>, an
  object) or of a value that \<open>float()\<close> converts to a number below 0 or above 10 (11,
  an infinity) is the gray \<open>#696969\<close> of \<open>'Invalid Data'\<close>: the colormap is not asked.
  For a value converted to \<open>s\<close> with \<open>0 \<le> s \<le> 10\<close> the result is the colour the
  colormap returns for \<open>s\<close>; with the five-stop gradient of the spec it is the blend
  of the two stops around \<open>s\<close>, and no such blend is one of the two grays.
\<close>

theorem get_color_sentinels:
  "get_color colormap PyNone = Inr ''#A9A9A9''
   \<and> get_color colormap (PyStr ''abc'') = Inr ''#696969''
   \<and> get_color colormap (PyInt 11) = Inr ''#696969''
   \<and> (score \<noteq> PyNone \<and> (float_of score = Inl TypeError \<or> float_of score = Inl ValueError) \<longrightarrow>
        get_color colormap score = Inr ''#696969'')
   \<and> (float_of score = Inr f \<and> (float_lt f (Fin 0) \<or> float_gt f (Fin 10)) \<longrightarrow>
        get_color colormap score = Inr ''#696969'')
   \<and> (float_of score = Inr (Fin s) \<and> 0 \<le> s \<and> s \<le> 10 \<and> colormap (Fin s) = Inr c \<longrightarrow>
        get_color colormap score = Inr c)
   \<and> (float_of score = Inr (Fin s) \<and> 0 \<le> s \<and> s \<le> 10 \<longrightarrow>
        get_color (linear_colormap at_nan) score
          = Inr (hex_of_rgb (gradient_rgb GRADIENT_COLORS 0 10 s))
        \<and> hex_of_rgb (gradient_rgb GRADIENT_COLORS 0 10 s) \<noteq> ''#A9A9A9''
        \<and> hex_of_rgb (gradient_rgb GRADIENT_COLORS 0 10 s) \<noteq> ''#696969'')"
proof -
  have none: "get_color colormap PyNone = Inr ''#A9A9A9''"
    by (simp add: get_color_def palette_grays)
  have abc: "get_color colormap (PyStr ''abc'') = Inr ''#696969''"
    by (simp add: get_color_def palette_grays float_of_abc caught_def del: float_of.simps)
  have eleven: "get_color colormap (PyInt 11) = Inr ''#696969''"
    by (simp add: get_color_def palette_grays float_of_PyInt of_py_int_def float_gt_def
        del: float_of.simps)
  have nonnum: "get_color colormap score = Inr ''#696969''"
    if "score \<noteq> PyNone \<and> (float_of score = Inl TypeError \<or> float_of score = Inl ValueError)"
    using that by (auto simp add: get_color_def palette_grays caught_def)
  have outside: "get_color colormap score = Inr ''#696969''"
    if "float_of score = Inr f \<and> (float_lt f (Fin 0) \<or> float_gt f (Fin 10))"
  proof -
    from that have "score \<noteq> PyNone" by auto
    with that show ?thesis
      by (auto simp add: get_color_def palette_grays of_py_int_def)
  qed
  have inside: "get_color cm score = Inr c"
    if "float_of score = Inr (Fin s) \<and> 0 \<le> s \<and> s \<le> 10 \<and> cm (Fin s) = Inr c" for cm c
  proof -
    from that have "score \<noteq> PyNone" by auto
    with that show ?thesis
      by (simp add: get_color_def of_py_int_def float_gt_def)
  qed
  have gradient: "get_color (linear_colormap at_nan) score
          = Inr (hex_of_rgb (gradient_rgb GRADIENT_COLORS 0 10 s))
        \<and> hex_of_rgb (gradient_rgb GRADIENT_COLORS 0 10 s) \<noteq> ''#A9A9A9''
        \<and> hex_of_rgb (gradient_rgb GRADIENT_COLORS 0 10 s) \<noteq> ''#696969''"
    if h: "float_of score = Inr (Fin s) \<and> 0 \<le> s \<and> s \<le> 10"
  proof -
    from h have "get_color (linear_colormap at_nan) score
          = Inr (hex_of_rgb (gradient_rgb GRADIENT_COLORS 0 10 s))"
      by (intro inside) simp
    moreover from h gradient_not_gray [of s "CHR ''A''"]
    have "hex_of_rgb (gradient_rgb GRADIENT_COLORS 0 10 s) \<noteq> ''#A9A9A9''" by simp
    moreover from h gradient_not_gray [of s "CHR ''6''"]
    have "hex_of_rgb (gradient_rgb GRADIENT_COLORS 0 10 s) \<noteq> ''#696969''" by simp
    ultimately show ?thesis by simp
  qed
  from none abc eleven nonnum outside inside [of colormap c] gradient show ?thesis by blast
qed

theorem get_color_sentinels_witness:
  "get_color (linear_colormap (Inl ValueError)) PyObj = Inr ''#696969''
   \<and> get_color (linear_colormap (Inl ValueError)) (PyFloat (Fin (21 / 2))) = Inr ''#696969''
   \<and> get_color (linear_colormap (Inl ValueError)) (PyFloat NInf) = Inr ''#696969''
   \<and> get_color (linear_colormap (Inl ValueError)) (PyInt 5) = Inr ''#FF8C00''"
  using get_color_sentinels [of "linear_colormap (Inl ValueError)" PyObj "Fin 0" 0 "''''" "Inl ValueError"]
    get_color_sentinels [of "linear_colormap (Inl ValueError)" "PyFloat (Fin (21 / 2))" "Fin (21 / 2)" 0 "''''" "Inl ValueError"]
    get_color_sentinels [of "linear_colormap (Inl ValueError)" "PyFloat NInf" "NInf" 0 "''''" "Inl ValueError"]
    get_color_sentinels [of "linear_colormap (Inl ValueError)" "PyInt 5" "Fin 5" 5 "''#FF8C00''" "Inl ValueError"]
  by (simp add: float_of_PyInt linear_colormap_at_5 float_gt_def del: float_of.simps(3,4) linear_colormap.simps)

lemma get_color_raises:
  "float_of v = Inl e \<Longrightarrow> \<not> caught e \<Longrightarrow> get_color colormap v = Inl e"
  by (cases "v = PyNone") (auto simp add: get_color_def caught_def)

text \<open>
  Claim C3 says that \<open>get_color\<close> of a number outside \<open>[0, 10]\<close> returns the gray of
  \<open>'Invalid Data'\<close>. The int \<open>2^1024\<close> is a number above 10, and \<open>get_color\<close> returns no
  colour for it, whatever the colormap is: \<open>float(2**1024)\<close> raises \<open>OverflowError\<close>
  before the test \<open>score < 0 or score > 10\<close> is reached, and the clause
  \<open>except (TypeError, ValueError)\<close> lets it pass. It is the same omission as in
  \<open>get_risk_category\<close>.
\<close>

theorem get_color_overflow:
  "get_color colormap (PyInt (2 ^ 1024)) = Inl OverflowError
   \<and> get_color colormap (PyInt (2 ^ 1024)) \<noteq> Inr (the (COLOR_PALETTE ''Invalid Data''))
   \<and> float_gt (Fin (2 ^ 1024)) (of_py_int 10)"
proof -
  have c: "\<not> caught OverflowError" by (simp add: caught_def)
  have g: "get_color colormap (PyInt (2 ^ 1024)) = Inl OverflowError"
    by (rule get_color_raises [OF float_of_2_1024 c])
  have d: "get_color colormap (PyInt (2 ^ 1024)) \<noteq> Inr (the (COLOR_PALETTE ''Invalid Data''))"
    unfolding g by (rule sum.distinct)
  have "(10::rat) < 2 ^ 1024" by simp
  then have a: "float_gt (Fin (2 ^ 1024)) (of_py_int 10)"
    by (simp add: float_gt_def of_py_int_def)
  show ?thesis by (intro conjI g d a)
qed

text \<open>
  Claim C10. At the score 10 the two functions part: \<open>get_risk_category(10)\<close> is
  \<open>'Invalid Data'\<close>, since 10 is not below the upper bound 10 of the last range, while
  \<open>get_color(10)\<close> is the colour the colormap returns for 10, since 10 is neither
  below 0 nor above 10. With the five-stop gradient of the spec that colour is the
  last stop \<open>#FF0000\<close>, which is neither gray.
\<close>

theorem classifier_and_colorizer_at_10:
  "get_risk_category (PyInt 10) = Inr ''Invalid Data''
   \<and> get_risk_category (PyFloat (Fin 10)) = Inr ''Invalid Data''
   \<and> \<not> float_lt (Fin 10) (of_py_int (snd (snd (last RISK_CATEGORIES))))
   \<and> \<not> float_lt (Fin 10) (of_py_int 0)
   \<and> \<not> float_gt (Fin 10) (of_py_int 10)
   \<and> (colormap (Fin 10) = Inr c \<longrightarrow>
        get_color colormap (PyInt 10) = Inr c \<and> get_color colormap (PyFloat (Fin 10)) = Inr c)
   \<and> get_color (linear_colormap at_nan) (PyInt 10) = Inr (last GRADIENT_COLORS)
   \<and> last GRADIENT_COLORS \<noteq> the (COLOR_PALETTE ''Invalid Data'')
   \<and> last GRADIENT_COLORS \<noteq> the (COLOR_PALETTE ''No Data'')"
proof -
  have "get_color cm (PyInt 10) = Inr c \<and> get_color cm (PyFloat (Fin 10)) = Inr c"
    if "cm (Fin 10) = Inr c" for cm c
    using that
    by (simp add: get_color_def float_of_PyInt of_py_int_def float_gt_def del: float_of.simps(3,4))
  moreover have "last GRADIENT_COLORS = ''#FF0000''" by (simp add: GRADIENT_COLORS_def)
  ultimately show ?thesis
    using linear_colormap_at_10 [of at_nan]
    by (simp add: get_risk_category_def float_of_PyInt RISK_CATEGORIES_def of_py_int_def
        float_gt_def palette_grays del: float_of.simps(3,4) linear_colormap.simps)
qed

theorem classifier_and_colorizer_at_10_witness:
  "get_color (linear_colormap (Inl ValueError)) (PyInt 10) = Inr ''#FF0000''
   \<and> get_color (linear_colormap (Inl ValueError)) (PyFloat (Fin 10)) = Inr ''#FF0000''
   \<and> get_risk_category (PyInt 10) = Inr ''Invalid Data''"
  using classifier_and_colorizer_at_10 [of "linear_colormap (Inl ValueError)" "''#FF0000''" "Inl ValueError"]
  by (simp add: linear_colormap_at_10 del: linear_colormap.simps)

section \<open>The file that is loaded\<close>

lemma valid_files_set:
  "valid_files entries = Inr files \<Longrightarrow>
     set files = {f \<in> set entries. endswith (filename f) ''.geojson''
                   \<and> (\<exists>n. getsize f = Inr n \<and> 0 < n)}"
proof (induction entries arbitrary: files)
  case Nil
  then show ?case by simp
next
  case (Cons f fs)
  show ?case
  proof (cases "endswith (filename f) ''.geojson''")
    case False
    with Cons show ?thesis by auto
  next
    case True
    with Cons.prems obtain n rest where n: "getsize f = Inr n" and rest: "valid_files fs = Inr rest"
      and files: "files = (if n > 0 then f # rest else rest)"
      by (auto split: sum.splits)
    from Cons.IH [OF rest] True n files show ?thesis by auto
  qed
qed

lemma max_by_greatest:
  assumes "key best = Inr best_key" "max_by key best best_key xs = Inr m"
  shows "m \<in> set (best # xs)
         \<and> (\<exists>t. key m = Inr t \<and> (\<forall>x \<in> set (best # xs). \<exists>u. key x = Inr u \<and> u \<le> t))"
  using assms
proof (induction xs arbitrary: best best_key)
  case Nil
  then show ?case by simp
next
  case (Cons y ys)
  from Cons.prems(2) obtain k where k: "key y = Inr k" by (auto split: sum.splits)
  show ?case
  proof (cases "best_key < k")
    case True
    with Cons.prems(2) k have "max_by key y k ys = Inr m" by simp
    from Cons.IH [OF k this] obtain t where
      m: "m \<in> set (y # ys)" and t: "key m = Inr t"
      and top: "\<forall>x \<in> set (y # ys). \<exists>u. key x = Inr u \<and> u \<le> t" by blast
    from top k have "k \<le> t" by auto
    with True have "best_key \<le> t" by simp
    with m t top Cons.prems(1) show ?thesis by auto
  next
    case False
    with Cons.prems(2) k have "max_by key best best_key ys = Inr m" by simp
    from Cons.IH [OF Cons.prems(1) this] obtain t where
      m: "m \<in> set (best # ys)" and t: "key m = Inr t"
      and top: "\<forall>x \<in> set (best # ys). \<exists>u. key x = Inr u \<and> u \<le> t" by blast
    from top Cons.prems(1) have "best_key \<le> t" by auto
    with False have "k \<le> t" by simp
    with m t top k show ?thesis by auto
  qed
qed

lemma max_key_greatest:
  assumes "max_key key xs = Inr m"
  shows "m \<in> set xs \<and> (\<exists>t. key m = Inr t \<and> (\<forall>x \<in> set xs. \<exists>u. key x = Inr u \<and> u \<le> t))"
proof (cases xs)
  case Nil
  with assms show ?thesis by (simp add: max_key_def)
next
  case (Cons x rest)
  with assms obtain k where k: "key x = Inr k" and m: "max_by key x k rest = Inr m"
    by (auto simp add: max_key_def split: sum.splits)
  from max_by_greatest [OF k m] Cons show ?thesis by simp
qed

lemma max_by_Inr:
  "\<forall>x \<in> set xs. \<exists>u. key x = Inr u \<Longrightarrow> \<exists>m. max_by key best best_key xs = Inr m"
  by (induction xs arbitrary: best best_key) auto

lemma max_key_Inr:
  assumes "xs \<noteq> []" "\<forall>x \<in> set xs. \<exists>u. key x = Inr u"
  shows "\<exists>m. max_key key xs = Inr m"
proof (cases xs)
  case Nil
  with assms show ?thesis by simp
next
  case (Cons x rest)
  with assms(2) obtain k where "key x = Inr k" by auto
  with Cons assms(2) max_by_Inr [of rest key x k] show ?thesis by (simp add: max_key_def)
qed

lemma load_latest_data_error:
  "load_latest_data node read_file = (d, t, n, Some e) \<Longrightarrow> d = None \<and> t = None \<and> n = None"
  by (auto simp add: load_latest_data_def split: node.splits list.splits sum.splits if_splits)

text \<open>What \<open>load_latest_data\<close> makes of the chosen file.\<close>

lemma load_latest_data_chosen:
  assumes "valid_files entries = Inr files" "max_key getctime files = Inr f"
  shows "load_latest_data (Directory entries) read_file =
     (case read_file (filename f) of
        Inl e \<Rightarrow> (None, None, None, Some (Error_loading_data e))
      | Inr data \<Rightarrow>
          if \<not> list_all (\<lambda>col. col \<in> set (columns data)) [''risk_score'', ''geometry'']
          then (None, None, None, Some (Message ''Missing required columns in data''))
          else
            (case try_map add_risk_category (features data) of
               Inl e \<Rightarrow> (None, None, None, Some (Error_loading_data e))
             | Inr zs \<Rightarrow>
                 (case getctime f of
                    Inl e \<Rightarrow> (None, None, None, Some (Error_loading_data e))
                  | Inr update_time \<Rightarrow>
                      (Some \<lparr>data_columns =
                               (if ''risk_category'' \<in> set (columns data) then columns data
                                else columns data @ [''risk_category'']),
                             zones = zs\<rparr>,
                       Some update_time, Some (filename f), None))))"
proof -
  from assms(2) have "files \<noteq> []" by (auto simp add: max_key_def)
  then obtain x rest where "files = x # rest" by (cases files) auto
  with assms show ?thesis by (simp add: load_latest_data_def)
qed

lemma valid_files_filter:
  "\<forall>f \<in> set entries. endswith (filename f) ''.geojson'' \<longrightarrow> (\<exists>n. getsize f = Inr n) \<Longrightarrow>
     valid_files entries
       = Inr (filter (\<lambda>f. endswith (filename f) ''.geojson'' \<and> (\<exists>n. getsize f = Inr n \<and> 0 < n))
                entries)"
  by (induction entries) auto

text \<open>
  Claim C4. A missing directory gives \<open>'Data directory not found'\<close>. The files kept are
  exactly the entries whose name ends in \<open>.geojson\<close> and whose size is greater than
  zero, so an entry of size zero is never kept; when none is kept (as when every
  entry with that ending has size zero) the result is
  \<open>'No valid GeoJSON files found'\<close>, and when \<open>os.path.getsize\<close> raises on an entry
  with that ending the exception is reported as \<open>Error loading data\<close>, as it is when
  \<open>os.path.getctime\<close> raises on a kept file. When files are
  kept and \<open>os.path.getctime\<close> answers for each, there is a kept file \<open>f\<close> whose
  creation time \<open>t\<close> no kept file exceeds, and the result is what reading \<open>f\<close> gives:
  the error of \<open>read_file\<close> on the name of \<open>f\<close>, the message for missing columns, or
  the records of that file with their categories, together with \<open>t\<close> and the name of
  \<open>f\<close>. Conversely, whenever a record set is returned with a time \<open>t\<close> and a name,
  the name is that of a kept entry created at \<open>t\<close>, every kept entry was created at
  \<open>t\<close> or before, and the records are those \<open>read_file\<close> returned for that very name.
  Every result that carries an error carries no record set, no time and no name.
\<close>

theorem load_latest_data_selection:
  "load_latest_data Missing read_file
     = (None, None, None, Some (Message ''Data directory not found''))
   \<and> (valid_files entries = Inr [] \<longrightarrow>
        load_latest_data (Directory entries) read_file
          = (None, None, None, Some (Message ''No valid GeoJSON files found'')))
   \<and> ((\<forall>f \<in> set entries. endswith (filename f) ''.geojson'' \<longrightarrow> getsize f = Inr 0) \<longrightarrow>
        load_latest_data (Directory entries) read_file
          = (None, None, None, Some (Message ''No valid GeoJSON files found'')))
   \<and> ((\<forall>f \<in> set entries. endswith (filename f) ''.geojson'' \<longrightarrow> (\<exists>n. getsize f = Inr n)) \<longrightarrow>
        valid_files entries
          = Inr (filter (\<lambda>f. endswith (filename f) ''.geojson'' \<and> (\<exists>n. getsize f = Inr n \<and> 0 < n))
                   entries))
   \<and> (valid_files entries = Inl e \<longrightarrow>
        load_latest_data (Directory entries) read_file
          = (None, None, None, Some (Error_loading_data e)))
   \<and> (valid_files entries = Inr files \<longrightarrow>
        (\<forall>f. f \<in> set files \<longleftrightarrow>
               f \<in> set entries \<and> endswith (filename f) ''.geojson''
               \<and> (\<exists>n. getsize f = Inr n \<and> 0 < n)))
   \<and> (valid_files entries = Inr files \<and> files \<noteq> []
        \<and> (\<forall>g \<in> set files. \<exists>u. getctime g = Inr u) \<longrightarrow>
        (\<exists>f t. f \<in> set files \<and> getctime f = Inr t
           \<and> (\<forall>g \<in> set files. \<exists>u. getctime g = Inr u \<and> u \<le> t)
           \<and> (\<forall>x. read_file (filename f) = Inl x \<longrightarrow>
                 load_latest_data (Directory entries) read_file
                   = (None, None, None, Some (Error_loading_data x)))
           \<and> (\<forall>frame. read_file (filename f) = Inr frame
                   \<and> \<not> (''risk_score'' \<in> set (columns frame) \<and> ''geometry'' \<in> set (columns frame))
                 \<longrightarrow> load_latest_data (Directory entries) read_file
                       = (None, None, None, Some (Message ''Missing required columns in data'')))
           \<and> (\<forall>frame zs. read_file (filename f) = Inr frame
                   \<and> ''risk_score'' \<in> set (columns frame) \<and> ''geometry'' \<in> set (columns frame)
                   \<and> try_map add_risk_category (features frame) = Inr zs
                 \<longrightarrow> load_latest_data (Directory entries) read_file
                       = (Some \<lparr>data_columns =
                                  (if ''risk_category'' \<in> set (columns frame) then columns frame
                                   else columns frame @ [''risk_category'']),
                                zones = zs\<rparr>,
                          Some t, Some (filename f), None))))
   \<and> (valid_files entries = Inr files \<and> (\<exists>g \<in> set files. \<exists>x. getctime g = Inl x) \<longrightarrow>
        (\<exists>x. load_latest_data (Directory entries) read_file
               = (None, None, None, Some (Error_loading_data x))))
   \<and> (load_latest_data (Directory entries) read_file = (Some data, Some t, Some name, None) \<longrightarrow>
        (\<exists>f frame. f \<in> set entries \<and> filename f = name \<and> getctime f = Inr t
           \<and> endswith name ''.geojson'' \<and> (\<exists>n. getsize f = Inr n \<and> 0 < n)
           \<and> (\<forall>g. g \<in> set entries \<and> endswith (filename g) ''.geojson''
                    \<and> (\<exists>n. getsize g = Inr n \<and> 0 < n)
                  \<longrightarrow> (\<exists>u. getctime g = Inr u \<and> u \<le> t))
           \<and> read_file name = Inr frame
           \<and> try_map add_risk_category (features frame) = Inr (zones data)))
   \<and> (load_latest_data node read_file = (d, u, n, Some x) \<longrightarrow> d = None \<and> u = None \<and> n = None)"
proof (intro conjI impI)
  show "load_latest_data Missing read_file
     = (None, None, None, Some (Message ''Data directory not found''))"
    by (simp add: load_latest_data_def)
next
  assume "valid_files entries = Inr []"
  then show "load_latest_data (Directory entries) read_file
          = (None, None, None, Some (Message ''No valid GeoJSON files found''))"
    by (simp add: load_latest_data_def)
next
  assume a: "\<forall>f \<in> set entries. endswith (filename f) ''.geojson'' \<longrightarrow> getsize f = Inr 0"
  then have "\<forall>f \<in> set entries. endswith (filename f) ''.geojson'' \<longrightarrow> (\<exists>n. getsize f = Inr n)"
    by simp
  from valid_files_filter [OF this] a have "valid_files entries = Inr []"
    by (simp add: filter_empty_conv)
  then show "load_latest_data (Directory entries) read_file
          = (None, None, None, Some (Message ''No valid GeoJSON files found''))"
    by (simp add: load_latest_data_def)
next
  assume "\<forall>f \<in> set entries. endswith (filename f) ''.geojson'' \<longrightarrow> (\<exists>n. getsize f = Inr n)"
  then show "valid_files entries
          = Inr (filter (\<lambda>f. endswith (filename f) ''.geojson'' \<and> (\<exists>n. getsize f = Inr n \<and> 0 < n))
                   entries)"
    by (rule valid_files_filter)
next
  assume "valid_files entries = Inl e"
  then show "load_latest_data (Directory entries) read_file
          = (None, None, None, Some (Error_loading_data e))"
    by (simp add: load_latest_data_def)
next
  assume "valid_files entries = Inr files"
  from valid_files_set [OF this]
  show "\<forall>f. f \<in> set files \<longleftrightarrow>
               f \<in> set entries \<and> endswith (filename f) ''.geojson''
               \<and> (\<exists>n. getsize f = Inr n \<and> 0 < n)"
    by simp
next
  assume a: "valid_files entries = Inr files \<and> files \<noteq> []
        \<and> (\<forall>g \<in> set files. \<exists>u. getctime g = Inr u)"
  then obtain f where f: "max_key getctime files = Inr f"
    using max_key_Inr [of files getctime] by blast
  from max_key_greatest [OF f] obtain t where
    mem: "f \<in> set files" and t: "getctime f = Inr t"
    and top: "\<forall>g \<in> set files. \<exists>u. getctime g = Inr u \<and> u \<le> t" by blast
  from a have v: "valid_files entries = Inr files" by simp
  note chosen = load_latest_data_chosen [OF v f, of read_file]
  have 1: "\<forall>x. read_file (filename f) = Inl x \<longrightarrow>
                 load_latest_data (Directory entries) read_file
                   = (None, None, None, Some (Error_loading_data x))"
    by (simp add: chosen)
  have 2: "\<forall>frame. read_file (filename f) = Inr frame
                   \<and> \<not> (''risk_score'' \<in> set (columns frame) \<and> ''geometry'' \<in> set (columns frame))
                 \<longrightarrow> load_latest_data (Directory entries) read_file
                       = (None, None, None, Some (Message ''Missing required columns in data''))"
    by (auto simp add: chosen)
  have 3: "\<forall>frame zs. read_file (filename f) = Inr frame
                   \<and> ''risk_score'' \<in> set (columns frame) \<and> ''geometry'' \<in> set (columns frame)
                   \<and> try_map add_risk_category (features frame) = Inr zs
                 \<longrightarrow> load_latest_data (Directory entries) read_file
                       = (Some \<lparr>data_columns =
                                  (if ''risk_category'' \<in> set (columns frame) then columns frame
                                   else columns frame @ [''risk_category'']),
                                zones = zs\<rparr>,
                          Some t, Some (filename f), None)"
    by (simp add: chosen t)
  from mem t top 1 2 3
  show "\<exists>f t. f \<in> set files \<and> getctime f = Inr t
           \<and> (\<forall>g \<in> set files. \<exists>u. getctime g = Inr u \<and> u \<le> t)
           \<and> (\<forall>x. read_file (filename f) = Inl x \<longrightarrow>
                 load_latest_data (Directory entries) read_file
                   = (None, None, None, Some (Error_loading_data x)))
           \<and> (\<forall>frame. read_file (filename f) = Inr frame
                   \<and> \<not> (''risk_score'' \<in> set (columns frame) \<and> ''geometry'' \<in> set (columns frame))
                 \<longrightarrow> load_latest_data (Directory entries) read_file
                       = (None, None, None, Some (Message ''Missing required columns in data'')))
           \<and> (\<forall>frame zs. read_file (filename f) = Inr frame
                   \<and> ''risk_score'' \<in> set (columns frame) \<and> ''geometry'' \<in> set (columns frame)
                   \<and> try_map add_risk_category (features frame) = Inr zs
                 \<longrightarrow> load_latest_data (Directory entries) read_file
                       = (Some \<lparr>data_columns =
                                  (if ''risk_category'' \<in> set (columns frame) then columns frame
                                   else columns frame @ [''risk_category'']),
                                zones = zs\<rparr>,
                          Some t, Some (filename f), None))"
    by (intro exI [of _ f] exI [of _ t] conjI)
next
  assume a: "valid_files entries = Inr files \<and> (\<exists>g \<in> set files. \<exists>x. getctime g = Inl x)"
  then obtain g rest where files: "files = g # rest" by (cases files) auto
  from a max_key_greatest [of getctime files] obtain x where "max_key getctime files = Inl x"
    by (cases "max_key getctime files") fastforce+
  with a files
  show "\<exists>x. load_latest_data (Directory entries) read_file
               = (None, None, None, Some (Error_loading_data x))"
    by (simp add: load_latest_data_def)
next
  assume ok: "load_latest_data (Directory entries) read_file = (Some data, Some t, Some name, None)"
  then obtain files f frame where v: "valid_files entries = Inr files"
    and f: "max_key getctime files = Inr f"
    and rd: "read_file (filename f) = Inr frame"
    and zs: "try_map add_risk_category (features frame) = Inr (zones data)"
    and nm: "filename f = name" and tm: "getctime f = Inr t"
    by (auto simp add: load_latest_data_def split: sum.splits list.splits if_splits)
  from max_key_greatest [OF f] tm have mem: "f \<in> set files"
    and top: "\<forall>g \<in> set files. \<exists>u. getctime g = Inr u \<and> u \<le> t" by auto
  note s = valid_files_set [OF v]
  from mem s have q: "f \<in> set entries" "endswith (filename f) ''.geojson''"
    "\<exists>n. getsize f = Inr n \<and> 0 < n" by auto
  have "\<forall>g. g \<in> set entries \<and> endswith (filename g) ''.geojson''
                    \<and> (\<exists>n. getsize g = Inr n \<and> 0 < n)
                  \<longrightarrow> (\<exists>u. getctime g = Inr u \<and> u \<le> t)"
    using top s by auto
  with q nm tm rd zs
  show "\<exists>f frame. f \<in> set entries \<and> filename f = name \<and> getctime f = Inr t
           \<and> endswith name ''.geojson'' \<and> (\<exists>n. getsize f = Inr n \<and> 0 < n)
           \<and> (\<forall>g. g \<in> set entries \<and> endswith (filename g) ''.geojson''
                    \<and> (\<exists>n. getsize g = Inr n \<and> 0 < n)
                  \<longrightarrow> (\<exists>u. getctime g = Inr u \<and> u \<le> t))
           \<and> read_file name = Inr frame
           \<and> try_map add_risk_category (features frame) = Inr (zones data)"
    by (intro exI [of _ f] exI [of _ frame]) simp
next
  assume "load_latest_data node read_file = (d, u, n, Some x)"
  then show "d = None" "u = None" "n = None" using load_latest_data_error by blast+
qed

theorem load_latest_data_selection_witness:
  "valid_files
     [\<lparr>filename = ''a.geojson'', getsize = Inr 0, getctime = Inr 30\<rparr>,
      \<lparr>filename = ''b.geojson'', getsize = Inr 10, getctime = Inr 20\<rparr>,
      \<lparr>filename = ''c.geojson'', getsize = Inr 5, getctime = Inr 10\<rparr>,
      \<lparr>filename = ''d.txt'', getsize = Inl OSError, getctime = Inl OSError\<rparr>]
     = Inr [\<lparr>filename = ''b.geojson'', getsize = Inr 10, getctime = Inr 20\<rparr>,
            \<lparr>filename = ''c.geojson'', getsize = Inr 5, getctime = Inr 10\<rparr>]
   \<and> load_latest_data
       (Directory
          [\<lparr>filename = ''a.geojson'', getsize = Inr 0, getctime = Inr 30\<rparr>,
           \<lparr>filename = ''b.geojson'', getsize = Inr 10, getctime = Inr 20\<rparr>,
           \<lparr>filename = ''c.geojson'', getsize = Inr 5, getctime = Inr 10\<rparr>,
           \<lparr>filename = ''d.txt'', getsize = Inl OSError, getctime = Inl OSError\<rparr>])
       (\<lambda>name. if name = ''b.geojson''
               then Inr \<lparr>columns = [''risk_score'', ''geometry''],
                         features = [\<lparr>risk_score = PyFloat (Fin 3), geometry = ()\<rparr>]\<rparr>
               else if name = ''c.geojson''
               then Inr \<lparr>columns = [''risk_score'', ''geometry''],
                         features = [\<lparr>risk_score = PyFloat (Fin 7), geometry = ()\<rparr>]\<rparr>
               else Inl (OtherError ''DriverError''))
     = (Some \<lparr>data_columns = [''risk_score'', ''geometry'', ''risk_category''],
               zones = [\<lparr>risk_score = PyFloat (Fin 3), geometry = (),
                         risk_category = ''Low Risk''\<rparr>]\<rparr>,
        Some 20, Some ''b.geojson'', None)
   \<and> load_latest_data
       (Directory
          [\<lparr>filename = ''b.geojson'', getsize = Inr 10, getctime = Inr 20\<rparr>,
           \<lparr>filename = ''c.geojson'', getsize = Inr 5, getctime = Inr 40\<rparr>])
       (\<lambda>name. if name = ''b.geojson''
               then Inr \<lparr>columns = [''risk_score'', ''geometry''],
                         features = [\<lparr>risk_score = PyFloat (Fin 3), geometry = ()\<rparr>]\<rparr>
               else if name = ''c.geojson''
               then Inr \<lparr>columns = [''risk_score'', ''geometry''],
                         features = [\<lparr>risk_score = PyFloat (Fin 7), geometry = ()\<rparr>]\<rparr>
               else Inl (OtherError ''DriverError''))
     = (Some \<lparr>data_columns = [''risk_score'', ''geometry'', ''risk_category''],
               zones = [\<lparr>risk_score = PyFloat (Fin 7), geometry = (),
                         risk_category = ''High Risk''\<rparr>]\<rparr>,
        Some 40, Some ''c.geojson'', None)
   \<and> load_latest_data
       (Directory [\<lparr>filename = ''a.geojson'', getsize = Inr 0, getctime = Inr 30\<rparr>])
       (\<lambda>name. Inl (OtherError ''DriverError'') :: exn + unit geoframe)
     = (None, None, None, Some (Message ''No valid GeoJSON files found''))
   \<and> load_latest_data
       (Directory [\<lparr>filename = ''a.geojson'', getsize = Inl OSError, getctime = Inr 30\<rparr>])
       (\<lambda>name. Inl (OtherError ''DriverError'') :: exn + unit geoframe)
     = (None, None, None, Some (Error_loading_data OSError))"
  using load_latest_data_selection
    [of "\<lambda>name. if name = ''b.geojson''
               then Inr \<lparr>columns = [''risk_score'', ''geometry''],
                         features = [\<lparr>risk_score = PyFloat (Fin 3), geometry = ()\<rparr>]\<rparr>
               else if name = ''c.geojson''
               then Inr \<lparr>columns = [''risk_score'', ''geometry''],
                         features = [\<lparr>risk_score = PyFloat (Fin 7), geometry = ()\<rparr>]\<rparr>
               else Inl (OtherError ''DriverError'')"
        "[\<lparr>filename = ''a.geojson'', getsize = Inr 0, getctime = Inr 30\<rparr>,
          \<lparr>filename = ''b.geojson'', getsize = Inr 10, getctime = Inr 20\<rparr>,
          \<lparr>filename = ''c.geojson'', getsize = Inr 5, getctime = Inr 10\<rparr>,
          \<lparr>filename = ''d.txt'', getsize = Inl OSError, getctime = Inl OSError\<rparr>]"
        OSError
        "[\<lparr>filename = ''b.geojson'', getsize = Inr 10, getctime = Inr 20\<rparr>,
          \<lparr>filename = ''c.geojson'', getsize = Inr 5, getctime = Inr 10\<rparr>]"]
  by (simp add: load_latest_data_def max_key_def endswith_def add_risk_category_def
      get_risk_category_def RISK_CATEGORIES_def of_py_int_def)

section \<open>The scenario of two files\<close>

lemma get_risk_category_of_float:
  "float_of v = Inr f \<Longrightarrow> get_risk_category v = Inr (scan_categories RISK_CATEGORIES f)"
  by (auto simp add: get_risk_category_def)

lemma alert_count_Cons_float:
  "float_of v = Inr f \<Longrightarrow>
     alert_count (v # vs) =
       (case alert_count vs of
          Inl e \<Rightarrow> Inl e
        | Inr n \<Rightarrow> Inr (if float_gt f ALERT_THRESHOLD then n + 1 else n))"
  by (cases "v = PyNone") auto

text \<open>
  Claim C8, for the names \<open>a.geojson\<close> and \<open>b.geojson\<close>. A directory holds
  \<open>a.geojson\<close> (created at \<open>T1\<close>, size 0) and \<open>b.geojson\<close> (created at \<open>T2\<close>, size
  512), listed in either order; \<open>b.geojson\<close> holds three records whose scores
  \<open>float()\<close> reads as 1, 5 and 9. Then \<open>load_latest_data\<close> returns the records of
  \<open>b.geojson\<close> with the labels \<open>'No Risk'\<close>, \<open>'Moderate Risk'\<close>, \<open>'Extreme Risk'\<close>, and the
  alert count is 2: the score 1 is not greater than the threshold 1.0. The empty
  file is left out whatever the two creation times are.
\<close>

theorem scenario_two_files:
  assumes "read_file ''b.geojson'' = Inr frame"
    and "''risk_score'' \<in> set (columns frame)" "''geometry'' \<in> set (columns frame)"
    and "features frame = [r1, r5, r9]"
    and "float_of (risk_score r1) = Inr (Fin 1)"
    and "float_of (risk_score r5) = Inr (Fin 5)"
    and "float_of (risk_score r9) = Inr (Fin 9)"
    and "entries = [\<lparr>filename = ''a.geojson'', getsize = Inr 0, getctime = Inr T1\<rparr>,
                    \<lparr>filename = ''b.geojson'', getsize = Inr 512, getctime = Inr T2\<rparr>]
         \<or> entries = [\<lparr>filename = ''b.geojson'', getsize = Inr 512, getctime = Inr T2\<rparr>,
                       \<lparr>filename = ''a.geojson'', getsize = Inr 0, getctime = Inr T1\<rparr>]"
  shows "\<exists>data. load_latest_data (Directory entries) read_file
                  = (Some data, Some T2, Some ''b.geojson'', None)
           \<and> map risk_category (zones data) = [''No Risk'', ''Moderate Risk'', ''Extreme Risk'']
           \<and> map risk_score (zones data) = map risk_score (features frame)
           \<and> alert_count (map risk_score (zones data)) = Inr 2
           \<and> \<not> float_gt (Fin 1) ALERT_THRESHOLD"
proof -
  have v: "valid_files entries
             = Inr [\<lparr>filename = ''b.geojson'', getsize = Inr 512, getctime = Inr T2\<rparr>]"
    using assms(8) by (auto simp add: endswith_def)
  have cats: "get_risk_category (risk_score r1) = Inr ''No Risk''"
    "get_risk_category (risk_score r5) = Inr ''Moderate Risk''"
    "get_risk_category (risk_score r9) = Inr ''Extreme Risk''"
    using assms(5-7)
    by (simp_all add: get_risk_category_of_float RISK_CATEGORIES_def of_py_int_def)
  have count: "alert_count [risk_score r1, risk_score r5, risk_score r9] = Inr 2"
    using assms(5-7)
    by (simp add: alert_count_Cons_float ALERT_THRESHOLD_def float_gt_def del: alert_count.simps(2))
  show ?thesis
    using assms(1-4) v cats count
    by (simp add: load_latest_data_def max_key_def add_risk_category_def ALERT_THRESHOLD_def
        float_gt_def)
qed

theorem scenario_two_files_witness:
  "\<exists>data. load_latest_data
       (Directory [\<lparr>filename = ''a.geojson'', getsize = Inr 0, getctime = Inr 100\<rparr>,
                   \<lparr>filename = ''b.geojson'', getsize = Inr 512, getctime = Inr 200\<rparr>])
       (\<lambda>name. Inr \<lparr>columns = [''risk_score'', ''geometry''],
                     features = [\<lparr>risk_score = PyInt 1, geometry = ()\<rparr>,
                                 \<lparr>risk_score = PyInt 5, geometry = ()\<rparr>,
                                 \<lparr>risk_score = PyInt 9, geometry = ()\<rparr>]\<rparr>)
     = (Some data, Some 200, Some ''b.geojson'', None)
     \<and> map risk_category (zones data) = [''No Risk'', ''Moderate Risk'', ''Extreme Risk'']
     \<and> map risk_score (zones data) = [PyInt 1, PyInt 5, PyInt 9]
     \<and> alert_count (map risk_score (zones data)) = Inr 2
     \<and> \<not> float_gt (Fin 1) ALERT_THRESHOLD"
  using scenario_two_files
    [of "\<lambda>name. Inr \<lparr>columns = [''risk_score'', ''geometry''],
                     features = [\<lparr>risk_score = PyInt 1, geometry = ()\<rparr>,
                                 \<lparr>risk_score = PyInt 5, geometry = ()\<rparr>,
                                 \<lparr>risk_score = PyInt 9, geometry = ()\<rparr>]\<rparr>"
        "\<lparr>columns = [''risk_score'', ''geometry''],
                     features = [\<lparr>risk_score = PyInt 1, geometry = ()\<rparr>,
                                 \<lparr>risk_score = PyInt 5, geometry = ()\<rparr>,
                                 \<lparr>risk_score = PyInt 9, geometry = ()\<rparr>]\<rparr>"
        "\<lparr>risk_score = PyInt 1, geometry = ()\<rparr>"
        "\<lparr>risk_score = PyInt 5, geometry = ()\<rparr>"
        "\<lparr>risk_score = PyInt 9, geometry = ()\<rparr>"
        "[\<lparr>filename = ''a.geojson'', getsize = Inr 0, getctime = Inr 100\<rparr>,
          \<lparr>filename = ''b.geojson'', getsize = Inr 512, getctime = Inr 200\<rparr>]" 100 200]
  by (simp add: float_of_PyInt del: float_of.simps(3,4))

text \<open>
  With the names \<open>a.geo\<close> and \<open>b.geo\<close> no file ends in \<open>.geojson\<close>, and nothing is
  loaded.
\<close>

theorem scenario_geo_names_counterexample:
  "load_latest_data
     (Directory [\<lparr>filename = ''a.geo'', getsize = Inr 0, getctime = Inr 100\<rparr>,
                 \<lparr>filename = ''b.geo'', getsize = Inr 512, getctime = Inr 200\<rparr>])
     (\<lambda>name. Inr \<lparr>columns = [''risk_score'', ''geometry''],
                   features = [\<lparr>risk_score = PyInt 1, geometry = ()\<rparr>,
                               \<lparr>risk_score = PyInt 5, geometry = ()\<rparr>,
                               \<lparr>risk_score = PyInt 9, geometry = ()\<rparr>]\<rparr>)
   = (None, None, None, Some (Message ''No valid GeoJSON files found''))"
  by (simp add: load_latest_data_def endswith_def)

section \<open>The distribution chart\<close>

lemma try_map_list_all2:
  "try_map f xs = Inr ys \<Longrightarrow> list_all2 (\<lambda>x y. f x = Inr y) xs ys"
  by (induction xs arbitrary: ys) (auto split: sum.splits)

lemma add_risk_category_Inr:
  "add_risk_category r = Inr z \<Longrightarrow>
     get_risk_category (risk_score r) = Inr (risk_category z) \<and> risk_score z = risk_score r
     \<and> geometry z = geometry r"
  by (auto simp add: add_risk_category_def split: sum.splits)

lemma scan_categories_label:
  "scan_categories cats f \<in> set (map fst cats) \<union> {''Invalid Data''}"
  by (induction cats f rule: scan_categories.induct) auto

lemma get_risk_category_label:
  "get_risk_category v = Inr c \<Longrightarrow> c \<in> set all_categories"
  using scan_categories_label [of RISK_CATEGORIES]
  by (auto simp add: get_risk_category_def all_categories_def split: if_splits sum.splits)

lemma loaded_zones:
  fixes data :: "'g dataframe"
  assumes "load_latest_data node read_file = (Some data, t, n, e)"
  shows "''risk_category'' \<in> set (data_columns data)"
    and "''risk_score'' \<in> set (data_columns data)"
    and "\<forall>z \<in> set (zones data). get_risk_category (risk_score z) = Inr (risk_category z)"
proof -
  from assms show "''risk_category'' \<in> set (data_columns data)"
    by (auto simp add: load_latest_data_def Let_def
        split: node.splits list.splits sum.splits if_splits)
  from assms show "''risk_score'' \<in> set (data_columns data)"
    by (auto simp add: load_latest_data_def Let_def
        split: node.splits list.splits sum.splits if_splits)
  from assms obtain frame :: "'g geoframe"
    where zs: "try_map add_risk_category (features frame) = Inr (zones data)"
    by (auto simp add: load_latest_data_def Let_def
        split: node.splits list.splits sum.splits if_splits)
  from try_map_list_all2 [OF zs]
  have "list_all2 (\<lambda>r z. get_risk_category (risk_score z) = Inr (risk_category z))
          (features frame) (zones data)"
    by (rule list_all2_mono) (auto dest: add_risk_category_Inr)
  then show "\<forall>z \<in> set (zones data). get_risk_category (risk_score z) = Inr (risk_category z)"
    by (auto simp add: list_all2_conv_all_nth in_set_conv_nth)
qed

lemma sum_count_list:
  assumes "distinct cs" "set xs \<subseteq> set cs"
  shows "sum_list (map (count_list xs) cs) = length xs"
proof -
  have "sum_list (map (count_list xs) cs) = sum (count_list xs) (set cs)"
    using assms(1) by (simp add: sum_list_distinct_conv_sum_set)
  also have "\<dots> = length xs"
    using assms(2) by (simp add: sum_count_set)
  finally show ?thesis .
qed

lemma risk_counts_eq:
  "risk_counts data = map (\<lambda>c. (c, count_list (map risk_category (zones data)) c)) all_categories"
  by (auto simp add: risk_counts_def reindex_def value_counts_def count_list_0_iff)

lemma distinct_all_categories: "distinct all_categories"
  by (simp add: all_categories_def RISK_CATEGORIES_def)

text \<open>
  Claim C5. For every record set that \<open>load_latest_data\<close> returns, the distribution
  chart shows the counts of the seven labels in their declared order, each label
  with the number of records that carry it (0 for a label no record carries), and
  the counts add up to the number of records: every record carries the label that
  \<open>get_risk_category\<close> returned for its score, which is one of the seven.
\<close>

theorem distribution_counts_sum:
  "load_latest_data node read_file = (Some data, t, n, e) \<longrightarrow>
     map fst (risk_counts data)
       = [''No Risk'', ''Low Risk'', ''Moderate Risk'', ''High Risk'', ''Extreme Risk'',
          ''No Data'', ''Invalid Data'']
     \<and> map snd (risk_counts data)
         = map (count_list (map risk_category (zones data))) all_categories
     \<and> sum_list (map snd (risk_counts data)) = length (zones data)
     \<and> (\<forall>z. z \<in> set (zones data) \<longrightarrow>
           get_risk_category (risk_score z) = Inr (risk_category z)
           \<and> risk_category z \<in> set all_categories)
     \<and> distribution data = [Inr (Bar_chart (risk_counts data))]"
proof
  assume ok: "load_latest_data node read_file = (Some data, t, n, e)"
  note z = loaded_zones [OF ok]
  have labels: "set (map risk_category (zones data)) \<subseteq> set all_categories"
    using z(3) get_risk_category_label by fastforce
  have snd_eq: "map snd (risk_counts data)
         = map (count_list (map risk_category (zones data))) all_categories"
    by (simp add: risk_counts_eq comp_def)
  have "sum_list (map snd (risk_counts data)) = length (map risk_category (zones data))"
    unfolding snd_eq by (rule sum_count_list [OF distinct_all_categories labels])
  moreover have "map fst (risk_counts data)
       = [''No Risk'', ''Low Risk'', ''Moderate Risk'', ''High Risk'', ''Extreme Risk'',
          ''No Data'', ''Invalid Data'']"
    by (simp add: risk_counts_eq comp_def all_categories_def RISK_CATEGORIES_def)
  moreover have "distribution data = [Inr (Bar_chart (risk_counts data))]"
    using z(1) by (simp add: distribution_def guarded_def)
  ultimately show "map fst (risk_counts data)
       = [''No Risk'', ''Low Risk'', ''Moderate Risk'', ''High Risk'', ''Extreme Risk'',
          ''No Data'', ''Invalid Data'']
     \<and> map snd (risk_counts data)
         = map (count_list (map risk_category (zones data))) all_categories
     \<and> sum_list (map snd (risk_counts data)) = length (zones data)
     \<and> (\<forall>z. z \<in> set (zones data) \<longrightarrow>
           get_risk_category (risk_score z) = Inr (risk_category z)
           \<and> risk_category z \<in> set all_categories)
     \<and> distribution data = [Inr (Bar_chart (risk_counts data))]"
    using snd_eq z(3) get_risk_category_label by auto
qed

theorem distribution_counts_sum_witness:
  "risk_counts
     \<lparr>data_columns = [''risk_score'', ''geometry'', ''risk_category''],
      zones = [\<lparr>risk_score = PyNone, geometry = (), risk_category = ''No Data''\<rparr>,
               \<lparr>risk_score = PyFloat (Fin 5), geometry = (), risk_category = ''Moderate Risk''\<rparr>,
               \<lparr>risk_score = PyStr ''abc'', geometry = (), risk_category = ''Invalid Data''\<rparr>,
               \<lparr>risk_score = PyFloat (Fin (11 / 2)), geometry = (), risk_category = ''Moderate Risk''\<rparr>]\<rparr>
   = [(''No Risk'', 0), (''Low Risk'', 0), (''Moderate Risk'', 2), (''High Risk'', 0),
      (''Extreme Risk'', 0), (''No Data'', 1), (''Invalid Data'', 1)]
   \<and> load_latest_data
       (Directory [\<lparr>filename = ''a.geojson'', getsize = Inr 1, getctime = Inr 0\<rparr>])
       (\<lambda>name. Inr \<lparr>columns = [''risk_score'', ''geometry''],
                     features = [\<lparr>risk_score = PyNone, geometry = ()\<rparr>,
                                 \<lparr>risk_score = PyFloat (Fin 5), geometry = ()\<rparr>,
                                 \<lparr>risk_score = PyStr ''abc'', geometry = ()\<rparr>,
                                 \<lparr>risk_score = PyFloat (Fin (11 / 2)), geometry = ()\<rparr>]\<rparr>)
     = (Some \<lparr>data_columns = [''risk_score'', ''geometry'', ''risk_category''],
      zones = [\<lparr>risk_score = PyNone, geometry = (), risk_category = ''No Data''\<rparr>,
               \<lparr>risk_score = PyFloat (Fin 5), geometry = (), risk_category = ''Moderate Risk''\<rparr>,
               \<lparr>risk_score = PyStr ''abc'', geometry = (), risk_category = ''Invalid Data''\<rparr>,
               \<lparr>risk_score = PyFloat (Fin (11 / 2)), geometry = (), risk_category = ''Moderate Risk''\<rparr>]\<rparr>,
        Some 0, Some ''a.geojson'', None)"
proof -
  have load: "load_latest_data
       (Directory [\<lparr>filename = ''a.geojson'', getsize = Inr 1, getctime = Inr 0\<rparr>])
       (\<lambda>name. Inr \<lparr>columns = [''risk_score'', ''geometry''],
                     features = [\<lparr>risk_score = PyNone, geometry = ()\<rparr>,
                                 \<lparr>risk_score = PyFloat (Fin 5), geometry = ()\<rparr>,
                                 \<lparr>risk_score = PyStr ''abc'', geometry = ()\<rparr>,
                                 \<lparr>risk_score = PyFloat (Fin (11 / 2)), geometry = ()\<rparr>]\<rparr>)
     = (Some \<lparr>data_columns = [''risk_score'', ''geometry'', ''risk_category''],
      zones = [\<lparr>risk_score = PyNone, geometry = (), risk_category = ''No Data''\<rparr>,
               \<lparr>risk_score = PyFloat (Fin 5), geometry = (), risk_category = ''Moderate Risk''\<rparr>,
               \<lparr>risk_score = PyStr ''abc'', geometry = (), risk_category = ''Invalid Data''\<rparr>,
               \<lparr>risk_score = PyFloat (Fin (11 / 2)), geometry = (), risk_category = ''Moderate Risk''\<rparr>]\<rparr>,
        Some 0, Some ''a.geojson'', None)"
    by (simp add: load_latest_data_def max_key_def endswith_def add_risk_category_def
        get_risk_category_def float_of_abc caught_def RISK_CATEGORIES_def of_py_int_def
        del: float_of.simps(4))
  have counts: "risk_counts
     \<lparr>data_columns = [''risk_score'', ''geometry'', ''risk_category''],
      zones = [\<lparr>risk_score = PyNone, geometry = (), risk_category = ''No Data''\<rparr>,
               \<lparr>risk_score = PyFloat (Fin 5), geometry = (), risk_category = ''Moderate Risk''\<rparr>,
               \<lparr>risk_score = PyStr ''abc'', geometry = (), risk_category = ''Invalid Data''\<rparr>,
               \<lparr>risk_score = PyFloat (Fin (11 / 2)), geometry = (), risk_category = ''Moderate Risk''\<rparr>]\<rparr>
   = [(''No Risk'', 0), (''Low Risk'', 0), (''Moderate Risk'', 2), (''High Risk'', 0),
      (''Extreme Risk'', 0), (''No Data'', 1), (''Invalid Data'', 1)]"
    by (simp add: risk_counts_eq all_categories_def RISK_CATEGORIES_def)
  from distribution_counts_sum [THEN mp, OF load]
  have "sum_list (map snd (risk_counts
     \<lparr>data_columns = [''risk_score'', ''geometry'', ''risk_category''],
      zones = [\<lparr>risk_score = PyNone, geometry = (), risk_category = ''No Data''\<rparr>,
               \<lparr>risk_score = PyFloat (Fin 5), geometry = (), risk_category = ''Moderate Risk''\<rparr>,
               \<lparr>risk_score = PyStr ''abc'', geometry = (), risk_category = ''Invalid Data''\<rparr>,
               \<lparr>risk_score = PyFloat (Fin (11 / 2)), geometry = (), risk_category = ''Moderate Risk''\<rparr>]\<rparr>))
     = length (zones
     \<lparr>data_columns = [''risk_score'', ''geometry'', ''risk_category''],
      zones = [\<lparr>risk_score = PyNone, geometry = (), risk_category = ''No Data''\<rparr>,
               \<lparr>risk_score = PyFloat (Fin 5), geometry = (), risk_category = ''Moderate Risk''\<rparr>,
               \<lparr>risk_score = PyStr ''abc'', geometry = (), risk_category = ''Invalid Data''\<rparr>,
               \<lparr>risk_score = PyFloat (Fin (11 / 2)), geometry = (), risk_category = ''Moderate Risk''\<rparr>]\<rparr>)"
    by (elim conjE)
  with counts load show ?thesis by simp
qed

section \<open>The order of the table\<close>

lemma comes_before_asym: "comes_before a b \<Longrightarrow> \<not> comes_before b a"
  by (cases a; cases b) (auto simp add: comes_before_def float_gt_def)

lemma comes_before_trans: "comes_before a b \<Longrightarrow> comes_before b c \<Longrightarrow> comes_before a c"
  by (cases a; cases b; cases c) (auto simp add: comes_before_def float_gt_def)

lemma mset_insert_desc: "mset (insert_desc key x ys) = add_mset x (mset ys)"
  by (induction ys) auto

lemma set_insert_desc: "set (insert_desc key x ys) = insert x (set ys)"
  by (induction ys) auto

lemma sorted_insert_desc:
  assumes "sorted_wrt (\<lambda>a b. \<not> comes_before (key b) (key a)) ys"
  shows "sorted_wrt (\<lambda>a b. \<not> comes_before (key b) (key a)) (insert_desc key x ys)"
  using assms
proof (induction ys)
  case Nil
  then show ?case by simp
next
  case (Cons y ys)
  show ?case
  proof (cases "comes_before (key x) (key y)")
    case True
    have "\<not> comes_before (key z) (key x)" if "z \<in> set ys" for z
    proof
      assume "comes_before (key z) (key x)"
      with True have "comes_before (key z) (key y)" by (blast intro: comes_before_trans)
      with Cons.prems that show False by simp
    qed
    with True Cons.prems show ?thesis by (auto dest: comes_before_asym)
  next
    case False
    with Cons show ?thesis by (auto simp add: set_insert_desc)
  qed
qed

lemma foldl_insert_desc:
  "mset (foldl (\<lambda>acc x. insert_desc key x acc) acc xs) = mset acc + mset xs"
  "sorted_wrt (\<lambda>a b. \<not> comes_before (key b) (key a)) acc \<Longrightarrow>
     sorted_wrt (\<lambda>a b. \<not> comes_before (key b) (key a))
       (foldl (\<lambda>acc x. insert_desc key x acc) acc xs)"
  by (induction xs arbitrary: acc) (simp_all add: mset_insert_desc sorted_insert_desc)

lemma mset_sort_values_desc: "mset (sort_values_desc key xs) = mset xs"
  by (simp add: sort_values_desc_def foldl_insert_desc)

lemma sorted_sort_values_desc:
  "sorted_wrt (\<lambda>a b. \<not> comes_before (key b) (key a)) (sort_values_desc key xs)"
  by (simp add: sort_values_desc_def foldl_insert_desc)

lemma try_map_with_sort_key:
  "try_map with_sort_key zs = Inr keyed \<Longrightarrow>
     map fst keyed = zs \<and> (\<forall>p \<in> set keyed. sort_key (risk_score (fst p)) = Inr (snd p))"
  by (induction zs arbitrary: keyed) (auto simp add: with_sort_key_def split: sum.splits)

lemma try_map_Inr_iff:
  "(\<exists>ys. try_map f xs = Inr ys) \<longleftrightarrow> (\<forall>x \<in> set xs. \<exists>y. f x = Inr y)"
  by (induction xs) (auto split: sum.splits)

lemma display_data_sorted:
  assumes col: "''risk_score'' \<in> set (data_columns data)"
    and ok: "display_data data = Inr rows"
  obtains keyed where
    "rows = map fst keyed" "mset (map fst keyed) = mset (zones data)"
    "sorted_wrt (\<lambda>a b. \<not> comes_before (snd b) (snd a)) keyed"
    "\<forall>p \<in> set keyed. sort_key (risk_score (fst p)) = Inr (snd p)"
proof -
  from col ok obtain k0 where k0: "try_map with_sort_key (zones data) = Inr k0"
    and rows: "rows = map fst (sort_values_desc snd k0)"
    by (auto simp add: display_data_def split: sum.splits)
  define keyed where "keyed = sort_values_desc snd k0"
  have m: "mset keyed = mset k0" by (simp add: keyed_def mset_sort_values_desc)
  then have s: "set keyed = set k0" by (rule mset_eq_setD)
  from try_map_with_sort_key [OF k0]
  have fst0: "map fst k0 = zones data"
    and key0: "\<forall>p \<in> set k0. sort_key (risk_score (fst p)) = Inr (snd p)" by simp_all
  have "mset (map fst keyed) = mset (map fst k0)" using m by (metis mset_map)
  with fst0 have "mset (map fst keyed) = mset (zones data)" by simp
  moreover have "sorted_wrt (\<lambda>a b. \<not> comes_before (snd b) (snd a)) keyed"
    unfolding keyed_def by (rule sorted_sort_values_desc)
  moreover have "\<forall>p \<in> set keyed. sort_key (risk_score (fst p)) = Inr (snd p)"
    using key0 s by simp
  ultimately show thesis using rows that by (simp add: keyed_def)
qed

text \<open>
  Claim C6, as the code has it. Let the frame have the column \<open>risk_score\<close>, as every
  loaded frame has. If \<open>float()\<close> accepts every score that is not \<open>None\<close>, the table
  has rows; and when it has rows, they are the records of the frame, each once, in
  an order in which no later row has a key that must come before the key of an
  earlier one, the key being \<open>float(score)\<close>, or \<open>-1\<close> for the score \<open>None\<close>, by falling
  value with NaN last. So a record without score stands behind every record whose
  score is a number greater than \<open>-1\<close>.
\<close>

theorem table_order:
  assumes col: "''risk_score'' \<in> set (data_columns data)"
  shows "((\<forall>z \<in> set (zones data). risk_score z \<noteq> PyNone \<longrightarrow> (\<exists>f. float_of (risk_score z) = Inr f))
            \<longrightarrow> (\<exists>rows. display_data data = Inr rows))
    \<and> (display_data data = Inr rows \<longrightarrow>
          mset rows = mset (zones data)
        \<and> (\<forall>i j. i < j \<and> j < length rows \<longrightarrow>
              (\<exists>a b. sort_key (risk_score (rows ! i)) = Inr a
                   \<and> sort_key (risk_score (rows ! j)) = Inr b
                   \<and> \<not> comes_before b a))
        \<and> (\<forall>i j f. i < j \<and> j < length rows \<and> risk_score (rows ! i) = PyNone
                   \<and> float_of (risk_score (rows ! j)) = Inr f
              \<longrightarrow> \<not> float_gt f (Fin (- 1))))"
proof (intro conjI impI)
  assume conv: "\<forall>z \<in> set (zones data). risk_score z \<noteq> PyNone \<longrightarrow> (\<exists>f. float_of (risk_score z) = Inr f)"
  have "\<exists>y. with_sort_key z = Inr y" if "z \<in> set (zones data)" for z
    using conv that by (cases "risk_score z = PyNone") (auto simp add: with_sort_key_def sort_key_def)
  then have "\<exists>keyed. try_map with_sort_key (zones data) = Inr keyed"
    by (simp add: try_map_Inr_iff)
  with col show "\<exists>rows. display_data data = Inr rows"
    by (auto simp add: display_data_def)
next
  assume ok: "display_data data = Inr rows"
  from display_data_sorted [OF col ok] obtain keyed where
    rows: "rows = map fst keyed" and m: "mset (map fst keyed) = mset (zones data)"
    and srt: "sorted_wrt (\<lambda>a b. \<not> comes_before (snd b) (snd a)) keyed"
    and key: "\<forall>p \<in> set keyed. sort_key (risk_score (fst p)) = Inr (snd p)"
    by blast
  show "mset rows = mset (zones data)" using rows m by simp
  have pair: "sort_key (risk_score (rows ! i)) = Inr (snd (keyed ! i))
        \<and> sort_key (risk_score (rows ! j)) = Inr (snd (keyed ! j))
        \<and> \<not> comes_before (snd (keyed ! j)) (snd (keyed ! i))"
    if "i < j" "j < length rows" for i j
  proof -
    from that rows have len: "i < length keyed" "j < length keyed" by simp_all
    then have "keyed ! i \<in> set keyed" "keyed ! j \<in> set keyed" by simp_all
    with key len rows have "sort_key (risk_score (rows ! i)) = Inr (snd (keyed ! i))"
      "sort_key (risk_score (rows ! j)) = Inr (snd (keyed ! j))" by simp_all
    moreover from srt that(1) len(2) have "\<not> comes_before (snd (keyed ! j)) (snd (keyed ! i))"
      by (simp add: sorted_wrt_iff_nth_less)
    ultimately show ?thesis by simp
  qed
  then show "\<forall>i j. i < j \<and> j < length rows \<longrightarrow>
              (\<exists>a b. sort_key (risk_score (rows ! i)) = Inr a
                   \<and> sort_key (risk_score (rows ! j)) = Inr b
                   \<and> \<not> comes_before b a)"
    by blast
  show "\<forall>i j f. i < j \<and> j < length rows \<and> risk_score (rows ! i) = PyNone
                   \<and> float_of (risk_score (rows ! j)) = Inr f
              \<longrightarrow> \<not> float_gt f (Fin (- 1))"
  proof (intro allI impI)
    fix i j f
    assume h: "i < j \<and> j < length rows \<and> risk_score (rows ! i) = PyNone
                   \<and> float_of (risk_score (rows ! j)) = Inr f"
    then have nn: "risk_score (rows ! j) \<noteq> PyNone" by auto
    from h pair [of i j] have "snd (keyed ! i) = Fin (- 1)" "snd (keyed ! j) = f"
      and nb: "\<not> comes_before (snd (keyed ! j)) (snd (keyed ! i))"
      using nn by (simp_all add: sort_key_def of_py_int_def)
    then have "\<not> comes_before f (Fin (- 1))" by simp
    then show "\<not> float_gt f (Fin (- 1))"
      by (cases f) (auto simp add: comes_before_def float_gt_def)
  qed
qed

theorem table_order_witness:
  "display_data
     \<lparr>data_columns = [''risk_score'', ''geometry'', ''risk_category''],
      zones = [\<lparr>risk_score = PyNone, geometry = (), risk_category = ''No Data''\<rparr>,
               \<lparr>risk_score = PyFloat (Fin 3), geometry = (), risk_category = ''Low Risk''\<rparr>,
               \<lparr>risk_score = PyFloat NaN, geometry = (), risk_category = ''Invalid Data''\<rparr>,
               \<lparr>risk_score = PyFloat (Fin 7), geometry = (), risk_category = ''High Risk''\<rparr>]\<rparr>
   = Inr [\<lparr>risk_score = PyFloat (Fin 7), geometry = (), risk_category = ''High Risk''\<rparr>,
          \<lparr>risk_score = PyFloat (Fin 3), geometry = (), risk_category = ''Low Risk''\<rparr>,
          \<lparr>risk_score = PyNone, geometry = (), risk_category = ''No Data''\<rparr>,
          \<lparr>risk_score = PyFloat NaN, geometry = (), risk_category = ''Invalid Data''\<rparr>]
   \<and> mset [\<lparr>risk_score = PyFloat (Fin 7), geometry = (), risk_category = ''High Risk''\<rparr>,
          \<lparr>risk_score = PyFloat (Fin 3), geometry = (), risk_category = ''Low Risk''\<rparr>,
          \<lparr>risk_score = PyNone, geometry = (), risk_category = ''No Data''\<rparr>,
          \<lparr>risk_score = PyFloat NaN, geometry = (), risk_category = ''Invalid Data''\<rparr>]
     = mset (zones
     \<lparr>data_columns = [''risk_score'', ''geometry'', ''risk_category''],
      zones = [\<lparr>risk_score = PyNone, geometry = (), risk_category = ''No Data''\<rparr>,
               \<lparr>risk_score = PyFloat (Fin 3), geometry = (), risk_category = ''Low Risk''\<rparr>,
               \<lparr>risk_score = PyFloat NaN, geometry = (), risk_category = ''Invalid Data''\<rparr>,
               \<lparr>risk_score = PyFloat (Fin 7), geometry = (), risk_category = ''High Risk''\<rparr>]\<rparr>)"
proof -
  have d: "display_data
     \<lparr>data_columns = [''risk_score'', ''geometry'', ''risk_category''],
      zones = [\<lparr>risk_score = PyNone, geometry = (), risk_category = ''No Data''\<rparr>,
               \<lparr>risk_score = PyFloat (Fin 3), geometry = (), risk_category = ''Low Risk''\<rparr>,
               \<lparr>risk_score = PyFloat NaN, geometry = (), risk_category = ''Invalid Data''\<rparr>,
               \<lparr>risk_score = PyFloat (Fin 7), geometry = (), risk_category = ''High Risk''\<rparr>]\<rparr>
   = Inr [\<lparr>risk_score = PyFloat (Fin 7), geometry = (), risk_category = ''High Risk''\<rparr>,
          \<lparr>risk_score = PyFloat (Fin 3), geometry = (), risk_category = ''Low Risk''\<rparr>,
          \<lparr>risk_score = PyNone, geometry = (), risk_category = ''No Data''\<rparr>,
          \<lparr>risk_score = PyFloat NaN, geometry = (), risk_category = ''Invalid Data''\<rparr>]"
    by (simp add: display_data_def with_sort_key_def sort_key_def sort_values_desc_def
        comes_before_def float_gt_def of_py_int_def)
  have c: "''risk_score'' \<in> set (data_columns
     \<lparr>data_columns = [''risk_score'', ''geometry'', ''risk_category''],
      zones = [\<lparr>risk_score = PyNone, geometry = (), risk_category = ''No Data''\<rparr>,
               \<lparr>risk_score = PyFloat (Fin 3), geometry = (), risk_category = ''Low Risk''\<rparr>,
               \<lparr>risk_score = PyFloat NaN, geometry = (), risk_category = ''Invalid Data''\<rparr>,
               \<lparr>risk_score = PyFloat (Fin 7), geometry = (), risk_category = ''High Risk''\<rparr>]\<rparr>)"
    by simp
  from table_order [OF c, THEN conjunct2, THEN mp, OF d, THEN conjunct1] d
  show ?thesis by (simp only:)
qed

text \<open>
  A record whose score is \<open>-5\<close> is shown behind a record without score: the key of
  the latter is \<open>-1\<close>.
\<close>

theorem table_order_counterexample:
  "display_data
     \<lparr>data_columns = [''risk_score'', ''geometry'', ''risk_category''],
      zones = [\<lparr>risk_score = PyFloat (Fin (- 5)), geometry = (), risk_category = ''Invalid Data''\<rparr>,
               \<lparr>risk_score = PyNone, geometry = (), risk_category = ''No Data''\<rparr>]\<rparr>
   = Inr [\<lparr>risk_score = PyNone, geometry = (), risk_category = ''No Data''\<rparr>,
          \<lparr>risk_score = PyFloat (Fin (- 5)), geometry = (), risk_category = ''Invalid Data''\<rparr>]"
  by (simp add: display_data_def with_sort_key_def sort_key_def sort_values_desc_def
      comes_before_def float_gt_def of_py_int_def)

section \<open>Failures of the panels\<close>

lemma guarded_eq:
  "guarded handler body = Inr (case body of Inl e \<Rightarrow> handler e | Inr w \<Rightarrow> w)"
  by (cases body) (simp_all add: guarded_def)

text \<open>
  Claim C7 fails at the alert-zone metric, whose \<open>float(x)\<close> stands in no \<open>try\<close>. When
  \<open>float()\<close> raises on a score there, the exception leaves the panel and ends the
  script: the page shows the first three metrics and then neither the chart nor the
  map nor the table. The metric before it meets the same exception, catches it and
  shows \<open>N/A\<close>.
\<close>

theorem alert_metric_aborts_page:
  "alert_count (map risk_score (zones data)) = Inl e \<longrightarrow>
     (\<exists>w2 w3. main_content lib data
        = ([Metric ''Total Zones'' (Count (length (zones data))), w2, w3], Some e)
        \<and> highest_risk data = Inr w2 \<and> area_metric lib data = Inr w3)"
proof
  assume a: "alert_count (map risk_score (zones data)) = Inl e"
  obtain w2 where w2: "highest_risk data = Inr w2"
    by (simp add: highest_risk_def guarded_eq)
  obtain w3 where w3: "area_metric lib data = Inr w3"
    by (simp add: area_metric_def guarded_eq)
  from a have "alert_zones data = Inl e" by (simp add: alert_zones_def)
  with w2 w3 have "main_content lib data
        = ([Metric ''Total Zones'' (Count (length (zones data))), w2, w3], Some e)"
    by (simp add: main_content_def total_zones_def)
  with w2 w3 show "\<exists>w2 w3. main_content lib data
        = ([Metric ''Total Zones'' (Count (length (zones data))), w2, w3], Some e)
        \<and> highest_risk data = Inr w2 \<and> area_metric lib data = Inr w3"
    by (intro exI conjI)
qed

theorem alert_metric_aborts_page_witness:
  "get_risk_category (PyStr ''abc'') = Inr ''Invalid Data''
   \<and> alert_count [PyStr ''abc''] = Inl ValueError
   \<and> main_content
        \<lparr>cmap = linear_colormap (Inl ValueError), total_area = (\<lambda>gs. Inl OSError),
          row_areas = (\<lambda>gs. Inl OSError)\<rparr>
        \<lparr>data_columns = [''risk_score'', ''geometry'', ''risk_category''],
         zones = [\<lparr>risk_score = PyStr ''abc'', geometry = (), risk_category = ''Invalid Data''\<rparr>]\<rparr>
       = ([Metric ''Total Zones'' (Count 1), Metric ''Highest Risk'' (Text NA),
           Metric ''Area'' (Text NA)],
          Some ValueError)"
proof -
  have a: "alert_count [PyStr ''abc''] = Inl ValueError"
    by (simp add: float_of_abc del: float_of.simps(4))
  have h: "highest_risk
        \<lparr>data_columns = [''risk_score'', ''geometry'', ''risk_category''],
         zones = [\<lparr>risk_score = PyStr ''abc'', geometry = (), risk_category = ''Invalid Data''\<rparr>]\<rparr>
        = Inr (Metric ''Highest Risk'' (Text NA))"
    by (simp add: highest_risk_def highest_risk_body_def guarded_def float_of_abc
        del: float_of.simps(4))
  have m: "area_metric
        \<lparr>cmap = linear_colormap (Inl ValueError), total_area = (\<lambda>gs. Inl OSError),
          row_areas = (\<lambda>gs. Inl OSError)\<rparr>
        \<lparr>data_columns = [''risk_score'', ''geometry'', ''risk_category''],
         zones = [\<lparr>risk_score = PyStr ''abc'', geometry = (), risk_category = ''Invalid Data''\<rparr>]\<rparr>
        = Inr (Metric ''Area'' (Text NA))"
    by (simp add: area_metric_def guarded_def)
  from alert_metric_aborts_page
    [of "\<lparr>data_columns = [''risk_score'', ''geometry'', ''risk_category''],
         zones = [\<lparr>risk_score = PyStr ''abc'', geometry = (), risk_category = ''Invalid Data''\<rparr>]\<rparr>"
        ValueError
        "\<lparr>cmap = linear_colormap (Inl ValueError), total_area = (\<lambda>gs. Inl OSError),
          row_areas = (\<lambda>gs. Inl OSError)\<rparr>"] a h m
  have "main_content
        \<lparr>cmap = linear_colormap (Inl ValueError), total_area = (\<lambda>gs. Inl OSError),
          row_areas = (\<lambda>gs. Inl OSError)\<rparr>
        \<lparr>data_columns = [''risk_score'', ''geometry'', ''risk_category''],
         zones = [\<lparr>risk_score = PyStr ''abc'', geometry = (), risk_category = ''Invalid Data''\<rparr>]\<rparr>
       = ([Metric ''Total Zones'' (Count 1), Metric ''Highest Risk'' (Text NA),
           Metric ''Area'' (Text NA)],
          Some ValueError)"
    by (simp del: alert_count.simps)
  with a show ?thesis
    by (simp add: get_risk_category_def float_of_abc caught_def del: float_of.simps(4) alert_count.simps)
qed

text \<open>
  The other panels do catch their failures: when the alert count itself does not
  raise, the page shows all seven widgets and the script ends without an
  exception, whatever the library calls do.
\<close>

theorem guarded_panels_render:
  "''risk_category'' \<in> set (data_columns data)
   \<and> alert_count (map risk_score (zones data)) = Inr n \<longrightarrow>
     (\<exists>w2 w3 w6 w7. main_content lib data
        = ([Metric ''Total Zones'' (Count (length (zones data))), w2, w3,
            Metric ''Alert Zones'' (Count n), Bar_chart (risk_counts data), w6, w7], None))"
proof
  assume a: "''risk_category'' \<in> set (data_columns data)
   \<and> alert_count (map risk_score (zones data)) = Inr n"
  obtain w2 where w2: "highest_risk data = Inr w2"
    by (simp add: highest_risk_def guarded_eq)
  obtain w3 where w3: "area_metric lib data = Inr w3"
    by (simp add: area_metric_def guarded_eq)
  obtain w6 where w6: "risk_map lib data = Inr w6"
    by (simp add: risk_map_def guarded_eq)
  obtain w7 where w7: "data_table lib data = Inr w7"
    by (simp add: data_table_def guarded_eq)
  from a have "alert_zones data = Inr (Metric ''Alert Zones'' (Count n))"
    by (simp add: alert_zones_def)
  with a w2 w3 w6 w7 have "main_content lib data
        = ([Metric ''Total Zones'' (Count (length (zones data))), w2, w3,
            Metric ''Alert Zones'' (Count n), Bar_chart (risk_counts data), w6, w7], None)"
    by (simp add: main_content_def total_zones_def distribution_def guarded_def)
  then show "\<exists>w2 w3 w6 w7. main_content lib data
        = ([Metric ''Total Zones'' (Count (length (zones data))), w2, w3,
            Metric ''Alert Zones'' (Count n), Bar_chart (risk_counts data), w6, w7], None)"
    by (intro exI)
qed

theorem guarded_panels_render_witness:
  "main_content
        
        \<lparr>cmap = linear_colormap (Inl ValueError), total_area = (\<lambda>gs. Inl OSError),
          row_areas = (\<lambda>gs. Inl OSError)\<rparr>
        
        \<lparr>data_columns = [''risk_score'', ''geometry'', ''risk_category''],
         zones = [\<lparr>risk_score = PyFloat (Fin 5), geometry = (), risk_category = ''Moderate Risk''\<rparr>]\<rparr>
   = ([Metric ''Total Zones'' (Count 1),
       Metric ''Highest Risk'' (Text (Fixed (Fin 5) 1)),
       Metric ''Area'' (Text NA),
       Metric ''Alert Zones'' (Count 1),
       Bar_chart (risk_counts 
        \<lparr>data_columns = [''risk_score'', ''geometry'', ''risk_category''],
         zones = [\<lparr>risk_score = PyFloat (Fin 5), geometry = (), risk_category = ''Moderate Risk''\<rparr>]\<rparr>),
       Folium_map [\<lparr>shape_geometry = (), fillColor = ''#FF8C00'',
                     tooltip_score = Fixed (Fin 5) 1, tooltip_category = ''Moderate Risk''\<rparr>],
       Error_box ''Data display error'' OSError],
      None)"
proof -
  have a: "''risk_category'' \<in> set (data_columns 
        \<lparr>data_columns = [''risk_score'', ''geometry'', ''risk_category''],
         zones = [\<lparr>risk_score = PyFloat (Fin 5), geometry = (), risk_category = ''Moderate Risk''\<rparr>]\<rparr>)
     \<and> alert_count (map risk_score (zones 
        \<lparr>data_columns = [''risk_score'', ''geometry'', ''risk_category''],
         zones = [\<lparr>risk_score = PyFloat (Fin 5), geometry = (), risk_category = ''Moderate Risk''\<rparr>]\<rparr>)) = Inr 1"
    by (simp add: ALERT_THRESHOLD_def float_gt_def)
  have h: "highest_risk 
        \<lparr>data_columns = [''risk_score'', ''geometry'', ''risk_category''],
         zones = [\<lparr>risk_score = PyFloat (Fin 5), geometry = (), risk_category = ''Moderate Risk''\<rparr>]\<rparr> = Inr (Metric ''Highest Risk'' (Text (Fixed (Fin 5) 1)))"
    by (simp add: highest_risk_def highest_risk_body_def guarded_def safe_float_format_def)
  have m: "area_metric 
        \<lparr>cmap = linear_colormap (Inl ValueError), total_area = (\<lambda>gs. Inl OSError),
          row_areas = (\<lambda>gs. Inl OSError)\<rparr> 
        \<lparr>data_columns = [''risk_score'', ''geometry'', ''risk_category''],
         zones = [\<lparr>risk_score = PyFloat (Fin 5), geometry = (), risk_category = ''Moderate Risk''\<rparr>]\<rparr> = Inr (Metric ''Area'' (Text NA))"
    by (simp add: area_metric_def guarded_def)
  have r: "risk_map 
        \<lparr>cmap = linear_colormap (Inl ValueError), total_area = (\<lambda>gs. Inl OSError),
          row_areas = (\<lambda>gs. Inl OSError)\<rparr> 
        \<lparr>data_columns = [''risk_score'', ''geometry'', ''risk_category''],
         zones = [\<lparr>risk_score = PyFloat (Fin 5), geometry = (), risk_category = ''Moderate Risk''\<rparr>]\<rparr>
     = Inr (Folium_map [\<lparr>shape_geometry = (), fillColor = ''#FF8C00'',
                     tooltip_score = Fixed (Fin 5) 1, tooltip_category = ''Moderate Risk''\<rparr>])"
    by (simp add: risk_map_def guarded_def map_shape_def safe_float_format_def get_color_def
        of_py_int_def float_gt_def linear_colormap_at_5 del: linear_colormap.simps)
  have t: "data_table 
        \<lparr>cmap = linear_colormap (Inl ValueError), total_area = (\<lambda>gs. Inl OSError),
          row_areas = (\<lambda>gs. Inl OSError)\<rparr> 
        \<lparr>data_columns = [''risk_score'', ''geometry'', ''risk_category''],
         zones = [\<lparr>risk_score = PyFloat (Fin 5), geometry = (), risk_category = ''Moderate Risk''\<rparr>]\<rparr> = Inr (Error_box ''Data display error'' OSError)"
    by (simp add: data_table_def guarded_def display_data_def with_sort_key_def sort_key_def
        sort_values_desc_def table_rows_def)
  from guarded_panels_render [of "
        \<lparr>data_columns = [''risk_score'', ''geometry'', ''risk_category''],
         zones = [\<lparr>risk_score = PyFloat (Fin 5), geometry = (), risk_category = ''Moderate Risk''\<rparr>]\<rparr>" 1 "
        \<lparr>cmap = linear_colormap (Inl ValueError), total_area = (\<lambda>gs. Inl OSError),
          row_areas = (\<lambda>gs. Inl OSError)\<rparr>", THEN mp, OF a]
  obtain w2 w3 w6 w7 where "main_content 
        \<lparr>cmap = linear_colormap (Inl ValueError), total_area = (\<lambda>gs. Inl OSError),
          row_areas = (\<lambda>gs. Inl OSError)\<rparr> 
        \<lparr>data_columns = [''risk_score'', ''geometry'', ''risk_category''],
         zones = [\<lparr>risk_score = PyFloat (Fin 5), geometry = (), risk_category = ''Moderate Risk''\<rparr>]\<rparr>
        = ([Metric ''Total Zones'' (Count (length (zones 
        \<lparr>data_columns = [''risk_score'', ''geometry'', ''risk_category''],
         zones = [\<lparr>risk_score = PyFloat (Fin 5), geometry = (), risk_category = ''Moderate Risk''\<rparr>]\<rparr>))), w2, w3,
            Metric ''Alert Zones'' (Count 1), Bar_chart (risk_counts 
        \<lparr>data_columns = [''risk_score'', ''geometry'', ''risk_category''],
         zones = [\<lparr>risk_score = PyFloat (Fin 5), geometry = (), risk_category = ''Moderate Risk''\<rparr>]\<rparr>), w6, w7], None)"
    by blast
  moreover have "main_content 
        \<lparr>cmap = linear_colormap (Inl ValueError), total_area = (\<lambda>gs. Inl OSError),
          row_areas = (\<lambda>gs. Inl OSError)\<rparr> 
        \<lparr>data_columns = [''risk_score'', ''geometry'', ''risk_category''],
         zones = [\<lparr>risk_score = PyFloat (Fin 5), geometry = (), risk_category = ''Moderate Risk''\<rparr>]\<rparr>
     = ([Metric ''Total Zones'' (Count 1),
       Metric ''Highest Risk'' (Text (Fixed (Fin 5) 1)),
       Metric ''Area'' (Text NA),
       Metric ''Alert Zones'' (Count 1),
       Bar_chart (risk_counts 
        \<lparr>data_columns = [''risk_score'', ''geometry'', ''risk_category''],
         zones = [\<lparr>risk_score = PyFloat (Fin 5), geometry = (), risk_category = ''Moderate Risk''\<rparr>]\<rparr>),
       Folium_map [\<lparr>shape_geometry = (), fillColor = ''#FF8C00'',
                     tooltip_score = Fixed (Fin 5) 1, tooltip_category = ''Moderate Risk''\<rparr>],
       Error_box ''Data display error'' OSError],
      None)"
    using a h m r t
    by (simp add: main_content_def total_zones_def alert_zones_def distribution_def guarded_def)
  ultimately show ?thesis by simp
qed

end
